theory Spec2Isabelle
  imports Main "HOL-Library.Word" "HOL-Library.AList" "HOL-Library.Multiset"
begin

unbundle bit_operations_syntax

section \<open>Values of the runtime\<close>

text \<open>
  The service is a Node.js program (\<^verbatim>\<open>backend-a/index.js\<close>, and a shorter copy of it)
  built on three libraries: Express (routing, \<^verbatim>\<open>res.json\<close>, \<^verbatim>\<open>res.sendStatus\<close>), multer
  (the multipart body, \<^verbatim>\<open>req.file\<close>) and pg (\<^verbatim>\<open>pool.query\<close>). The program is modelled as
  a function from a request, the datastore's answers and the table to a response, the
  lines written to the error console and the new table. What the libraries do is
  written out where the program calls them.
\<close>

type_synonym byte = "8 word"

type_synonym Buffer = "byte list"

text \<open>A thrown or rejected \<^verbatim>\<open>Error\<close>; the program reads only its \<^verbatim>\<open>message\<close>.\<close>

datatype js_error = Error (message: string)

text \<open>
  JavaScript truthiness of a value that is either an object or \<^verbatim>\<open>null\<close>/\<^verbatim>\<open>undefined\<close>:
  every object is truthy, whatever it holds (a Buffer of length 0 included).
\<close>

definition truthy :: "'a option \<Rightarrow> bool" where
  "truthy v = (case v of None \<Rightarrow> False | Some _ \<Rightarrow> True)"

subsection \<open>\<^verbatim>\<open>Buffer.toString("base64")\<close>\<close>

definition base64_alphabet :: string where
  "base64_alphabet = ''ABCDEFGHIJKLMNOPQRSTUVWXYZabcdefghijklmnopqrstuvwxyz0123456789+/''"

definition base64_char :: "byte \<Rightarrow> char" where
  "base64_char v = base64_alphabet ! unat (v AND 63)"

text \<open>
  Three bytes give four characters; a tail of one or two bytes is padded with \<^verbatim>\<open>=\<close>.
\<close>

fun toString_base64 :: "Buffer \<Rightarrow> string" where
  "toString_base64 (a # b # c # rest) =
     [base64_char (drop_bit 2 a),
      base64_char (push_bit 4 (a AND 3) OR drop_bit 4 b),
      base64_char (push_bit 2 (b AND 15) OR drop_bit 6 c),
      base64_char (c AND 63)] @ toString_base64 rest"
| "toString_base64 [a, b] =
     [base64_char (drop_bit 2 a),
      base64_char (push_bit 4 (a AND 3) OR drop_bit 4 b),
      base64_char (push_bit 2 (b AND 15)),
      CHR ''='']"
| "toString_base64 [a] =
     [base64_char (drop_bit 2 a),
      base64_char (push_bit 4 (a AND 3)),
      CHR ''='', CHR ''='']"
| "toString_base64 [] = []"

text \<open>The inverse reading of one character, and of a whole padded text.\<close>

definition base64_index :: "char \<Rightarrow> byte option" where
  "base64_index ch = map_of (zip base64_alphabet (map of_nat [0..<64])) ch"

definition bytes_of_2 :: "byte \<Rightarrow> byte \<Rightarrow> Buffer" where
  "bytes_of_2 p q = [push_bit 2 p OR drop_bit 4 q]"

definition bytes_of_3 :: "byte \<Rightarrow> byte \<Rightarrow> byte \<Rightarrow> Buffer" where
  "bytes_of_3 p q r = [push_bit 2 p OR drop_bit 4 q, push_bit 4 q OR drop_bit 2 r]"

definition bytes_of_4 :: "byte \<Rightarrow> byte \<Rightarrow> byte \<Rightarrow> byte \<Rightarrow> Buffer" where
  "bytes_of_4 p q r s =
     [push_bit 2 p OR drop_bit 4 q, push_bit 4 q OR drop_bit 2 r, push_bit 6 r OR s]"

fun base64_decode :: "string \<Rightarrow> Buffer option" where
  "base64_decode [] = Some []"
| "base64_decode [w, x, y, z] =
     (case (base64_index w, base64_index x) of
        (Some p, Some q) \<Rightarrow>
          (if y = CHR ''='' \<and> z = CHR ''='' then Some (bytes_of_2 p q)
           else (case base64_index y of
                   None \<Rightarrow> None
                 | Some r \<Rightarrow>
                     (if z = CHR ''='' then Some (bytes_of_3 p q r)
                      else (case base64_index z of
                              None \<Rightarrow> None
                            | Some s \<Rightarrow> Some (bytes_of_4 p q r s)))))
      | _ \<Rightarrow> None)"
| "base64_decode (w # x # y # z # rest) =
     (case (base64_index w, base64_index x, base64_index y, base64_index z) of
        (Some p, Some q, Some r, Some s) \<Rightarrow>
          (case base64_decode rest of
             None \<Rightarrow> None
           | Some bs \<Rightarrow> Some (bytes_of_4 p q r s @ bs))
      | _ \<Rightarrow> None)"
| "base64_decode _ = None"

section \<open>The shared table\<close>

text \<open>
  \<^verbatim>\<open>db/init.sql\<close>: \<^verbatim>\<open>requests(id SERIAL PRIMARY KEY, backend_name TEXT NOT NULL,
  ts TIMESTAMP DEFAULT NOW(), meta JSONB, image BYTEA)\<close>. A row read back by the
  program has the first four columns only; a stored row extends it by the image.
  The JSONB column is kept as the JSON text it was given. The program never writes
  NULL into \<^verbatim>\<open>ts\<close> or \<^verbatim>\<open>meta\<close>, and the model has no NULL there.
\<close>

record result_row =
  id_col :: nat
  backend_name :: string
  ts :: nat
  meta :: string

record row = result_row +
  image_col :: "Buffer option"

text \<open>The table in insertion order, and the last value of the sequence behind \<^verbatim>\<open>id\<close>.\<close>

record database =
  requests :: "row list"
  requests_id_seq :: nat

text \<open>
  \<^verbatim>\<open>INSERT INTO requests (backend_name, meta, image) VALUES ($1, $2, $3)\<close>:
  the id comes from the sequence, the timestamp from the datastore's clock.
\<close>

definition INSERT_INTO_requests ::
  "nat \<Rightarrow> string \<Rightarrow> string \<Rightarrow> Buffer option \<Rightarrow> database \<Rightarrow> database" where
  "INSERT_INTO_requests clock b m i d =
     (let new_id = requests_id_seq d + 1
      in d\<lparr>requests := requests d @
             [\<lparr>id_col = new_id, backend_name = b, ts = clock, meta = m, image_col = i\<rparr>],
           requests_id_seq := new_id\<rparr>)"

text \<open>
  \<^verbatim>\<open>ORDER BY ts DESC\<close> as an insertion sort. SQL leaves the order of rows with equal
  \<^verbatim>\<open>ts\<close> open; here they stay in table order.
\<close>

fun insert_by_ts_desc :: "row \<Rightarrow> row list \<Rightarrow> row list" where
  "insert_by_ts_desc r [] = [r]"
| "insert_by_ts_desc r (x # xs) =
     (if ts x \<le> ts r then r # x # xs else x # insert_by_ts_desc r xs)"

definition ORDER_BY_ts_DESC :: "row list \<Rightarrow> row list" where
  "ORDER_BY_ts_DESC rs = foldr insert_by_ts_desc rs []"

definition select_columns :: "row \<Rightarrow> result_row" where
  "select_columns r =
     \<lparr>id_col = id_col r, backend_name = backend_name r, ts = ts r, meta = meta r\<rparr>"

text \<open>
  \<^verbatim>\<open>SELECT id, backend_name, ts, meta FROM requests ORDER BY ts DESC LIMIT 5\<close>
\<close>

definition SELECT_recent :: "database \<Rightarrow> result_row list" where
  "SELECT_recent d = map select_columns (take 5 (ORDER_BY_ts_DESC (requests d)))"

text \<open>
  What the datastore does during one request: the value of \<^verbatim>\<open>NOW()\<close> when the insert
  runs, and for each of the two queries whether \<^verbatim>\<open>pool.query\<close> rejects, and with which
  error. A query that is rejected leaves the table as it was.
\<close>

record datastore_io =
  now :: nat
  insert_error :: "js_error option"
  select_error :: "js_error option"

definition pool_query_insert ::
  "datastore_io \<Rightarrow> string \<Rightarrow> string \<Rightarrow> Buffer option \<Rightarrow> database \<Rightarrow> js_error + database" where
  "pool_query_insert io b m i d =
     (case insert_error io of
        Some err \<Rightarrow> Inl err
      | None \<Rightarrow> Inr (INSERT_INTO_requests (now io) b m i d))"

definition pool_query_select :: "datastore_io \<Rightarrow> database \<Rightarrow> js_error + result_row list" where
  "pool_query_select io d =
     (case select_error io of
        Some err \<Rightarrow> Inl err
      | None \<Rightarrow> Inr (SELECT_recent d))"

section \<open>Requests and responses\<close>

text \<open>
  A file as multer hands it over (memory storage): its name, its type and its bytes.
\<close>

record multer_file =
  originalname :: string
  mimetype :: string
  buffer :: Buffer

text \<open>
  The body of a request, as far as the upload route reads it: not
  \<^verbatim>\<open>multipart/form-data\<close> at all, a multipart body that cannot be parsed (with the
  parser's error), or the parts of a multipart body in the order sent, each a text
  field or a file under a field name.
\<close>

datatype form_part = Field string string | File string multer_file

datatype form_body = NotMultipart | Malformed js_error | Multipart "form_part list"

text \<open>\<open>req_path\<close> is the path of the URL, without the query string.\<close>

record request =
  req_method :: string
  req_path :: string
  req_body :: form_body

text \<open>The value of the constant \<^verbatim>\<open>PORT\<close>: a number or a string.\<close>

datatype js_value = JSNumber nat | JSString string

text \<open>One constructor for each shape of body the program sends.\<close>

datatype body =
    NoBody
  | Text string
  | RootInfo string string string string
  | HealthInfo string string js_value
  | ApiInfo string string string
  | UploadResult string "result_row list" "string option"
  | ErrorResult string string
  | FinalHandlerPage

record response =
  status :: nat
  headers :: "(string \<times> string) list"
  body :: body

text \<open>The result of serving one request.\<close>

record outcome =
  sent :: response
  console_error :: "(string \<times> js_error) list"
  db_after :: database

text \<open>
  One running service: the identity constant, the route of the upload endpoint, and
  the environment variable \<^verbatim>\<open>PORT\<close> of the process.
\<close>

record service =
  BACKEND :: string
  api_route :: string
  env_PORT :: "string option"

definition backend_a :: "string option \<Rightarrow> service" where
  "backend_a p = \<lparr>BACKEND = ''backend-a'', api_route = ''/api/a'', env_PORT = p\<rparr>"

text \<open>
  \<^verbatim>\<open>const PORT = process.env.PORT || 8080\<close>: an environment variable is a string, and
  the empty string is falsy.
\<close>

definition PORT :: "service \<Rightarrow> js_value" where
  "PORT inst =
     (case env_PORT inst of
        None \<Rightarrow> JSNumber 8080
      | Some s \<Rightarrow> if s = [] then JSNumber 8080 else JSString s)"

subsection \<open>Express\<close>

definition new_response :: response where
  "new_response = \<lparr>status = 200, headers = [], body = NoBody\<rparr>"

definition res_header :: "string \<Rightarrow> string \<Rightarrow> response \<Rightarrow> response" where
  "res_header name v res = res\<lparr>headers := AList.update name v (headers res)\<rparr>"

definition res_status :: "nat \<Rightarrow> response \<Rightarrow> response" where
  "res_status code res = res\<lparr>status := code\<rparr>"

definition res_json :: "body \<Rightarrow> response \<Rightarrow> response" where
  "res_json b res = res\<lparr>body := b\<rparr>"

text \<open>
  The registered message of a status code; a code without one is sent as its digits.
  Of the registry, the entries of the codes this program sends are listed.
\<close>

fun decimal :: "nat \<Rightarrow> string" where
  "decimal n =
     (if n < 10 then [char_of (48 + n)] else decimal (n div 10) @ [char_of (48 + n mod 10)])"

definition status_message :: "nat \<Rightarrow> string" where
  "status_message code =
     (if code = 200 then ''OK''
      else if code = 404 then ''Not Found''
      else if code = 500 then ''Internal Server Error''
      else decimal code)"

text \<open>
  \<^verbatim>\<open>res.sendStatus(code)\<close> sets the status and sends the status message as a text body.
\<close>

definition res_sendStatus :: "nat \<Rightarrow> response \<Rightarrow> response" where
  "res_sendStatus code res = res\<lparr>status := code, body := Text (status_message code)\<rparr>"

text \<open>
  Route matching with Express's defaults: letters compare without case, and one
  trailing slash is accepted.
\<close>

definition lower_char :: "char \<Rightarrow> char" where
  "lower_char ch =
     (case map_of (zip ''ABCDEFGHIJKLMNOPQRSTUVWXYZ'' ''abcdefghijklmnopqrstuvwxyz'') ch of
        None \<Rightarrow> ch
      | Some l \<Rightarrow> l)"

definition route_matches :: "string \<Rightarrow> string \<Rightarrow> bool" where
  "route_matches route p =
     (let q = map lower_char p; r = map lower_char route
      in q = r \<or> (r \<noteq> ''/'' \<and> q = r @ ''/''))"

text \<open>A route registered with \<^verbatim>\<open>app.get\<close> also answers HEAD, without a body.\<close>

definition app_get :: "string \<Rightarrow> request \<Rightarrow> bool" where
  "app_get route req =
     ((req_method req = ''GET'' \<or> req_method req = ''HEAD'') \<and> route_matches route (req_path req))"

definition app_post :: "string \<Rightarrow> request \<Rightarrow> bool" where
  "app_post route req = (req_method req = ''POST'' \<and> route_matches route (req_path req))"

definition end_response :: "request \<Rightarrow> response \<Rightarrow> response" where
  "end_response req res = (if req_method req = ''HEAD'' then res\<lparr>body := NoBody\<rparr> else res)"

text \<open>
  An error that a middleware passes on reaches Express's own error handler: status 500
  for an error that carries no status of its own, as the errors of multer and of its
  parser do, and Express's error page. Of the headers, those the program has set
  stay; of the error console, only what the program itself writes is modelled.
\<close>

definition default_error_handler :: "js_error \<Rightarrow> response \<Rightarrow> response" where
  "default_error_handler err res = res\<lparr>status := 500, body := FinalHandlerPage\<rparr>"

subsection \<open>multer\<close>

text \<open>
  \<^verbatim>\<open>upload.single(name)\<close> accepts one file, under the field \<open>name\<close>. It takes the file parts
  in the order sent; a file part without a file name is skipped; a file under another
  field, or a second file, is refused with the error \<^verbatim>\<open>Unexpected field\<close>, which ends
  the request. \<open>left\<close> counts the files still allowed under \<open>name\<close>.
\<close>

fun single_scan :: "string \<Rightarrow> nat \<Rightarrow> multer_file option \<Rightarrow> form_part list \<Rightarrow> js_error + multer_file option" where
  "single_scan name left file [] = Inr file"
| "single_scan name left file (Field k v # parts) = single_scan name left file parts"
| "single_scan name left file (File k f # parts) =
     (if originalname f = [] then single_scan name left file parts
      else if k \<noteq> name \<or> left = 0 then Inl (Error ''Unexpected field'')
      else single_scan name (left - 1) (Some f) parts)"

text \<open>
  The middleware: \<^verbatim>\<open>Inl\<close> is the error passed on, \<^verbatim>\<open>Inr\<close> is \<^verbatim>\<open>req.file\<close> as the handler
  finds it. A body that is not multipart is let through untouched.
\<close>

definition upload_single :: "string \<Rightarrow> request \<Rightarrow> js_error + multer_file option" where
  "upload_single name req =
     (case req_body req of
        NotMultipart \<Rightarrow> Inr None
      | Malformed err \<Rightarrow> Inl err
      | Multipart parts \<Rightarrow> single_scan name 1 None parts)"

section \<open>The program\<close>

subsection \<open>The CORS middleware\<close>

definition cors :: "response \<Rightarrow> response" where
  "cors res =
     res_header ''Access-Control-Allow-Headers'' ''Content-Type''
       (res_header ''Access-Control-Allow-Methods'' ''GET, POST, OPTIONS''
          (res_header ''Access-Control-Allow-Origin'' ''*'' res))"

subsection \<open>The handlers\<close>

definition root_handler :: "service \<Rightarrow> response \<Rightarrow> response" where
  "root_handler inst res =
     res_json (RootInfo (BACKEND inst) ''Backend service is running'' ''/health''
                 (api_route inst @ '' (POST for data submission)'')) res"

definition health_handler :: "service \<Rightarrow> response \<Rightarrow> response" where
  "health_handler inst res = res_json (HealthInfo ''ok'' (BACKEND inst) (PORT inst)) res"

definition api_info_handler :: "service \<Rightarrow> response \<Rightarrow> response" where
  "api_info_handler inst res =
     res_json (ApiInfo (BACKEND inst) ''Use POST to submit data'' (api_route inst)) res"

text \<open>\<^verbatim>\<open>const meta = { uploaded: !!image }\<close> and \<^verbatim>\<open>JSON.stringify(meta)\<close>.\<close>

record meta_object =
  uploaded :: bool

definition JSON_stringify :: "meta_object \<Rightarrow> string" where
  \<open>JSON_stringify m = (if uploaded m then ''{"uploaded":true}'' else ''{"uploaded":false}'')\<close>

text \<open>Reading \<^verbatim>\<open>meta.uploaded\<close> back from the stored JSON text.\<close>

definition meta_uploaded :: "string \<Rightarrow> bool option" where
  \<open>meta_uploaded s =
     (if s = ''{"uploaded":true}'' then Some True
      else if s = ''{"uploaded":false}'' then Some False
      else None)\<close>

text \<open>\<^verbatim>\<open>const image = req.file ? req.file.buffer : null\<close>\<close>

definition image_of :: "multer_file option \<Rightarrow> Buffer option" where
  "image_of req_file = (case req_file of None \<Rightarrow> None | Some f \<Rightarrow> Some (buffer f))"

text \<open>
  The \<^verbatim>\<open>try\<close> block of the upload handler; of the request it reads \<^verbatim>\<open>req.file\<close> only.
  \<^verbatim>\<open>Inl\<close> is the error thrown out of it, with the table as it is at that moment.
\<close>

definition upload_try :: "service \<Rightarrow> datastore_io \<Rightarrow> multer_file option \<Rightarrow> database \<Rightarrow> (js_error + body) \<times> database" where
  "upload_try inst io req_file d =
     (let image = image_of req_file;
          m = \<lparr>uploaded = truthy image\<rparr>
      in case pool_query_insert io (BACKEND inst) (JSON_stringify m) image d of
           Inl err \<Rightarrow> (Inl err, d)
         | Inr d1 \<Rightarrow>
             (case pool_query_select io d1 of
                Inl err \<Rightarrow> (Inl err, d1)
              | Inr rows \<Rightarrow>
                  (Inr (UploadResult (BACKEND inst) rows
                          (case image of None \<Rightarrow> None | Some b \<Rightarrow> Some (toString_base64 b))),
                   d1)))"

text \<open>The whole handler: the \<^verbatim>\<open>catch\<close> clause logs the error and answers 500.\<close>

definition upload_handler :: "service \<Rightarrow> datastore_io \<Rightarrow> multer_file option \<Rightarrow> database \<Rightarrow> response \<Rightarrow> outcome" where
  "upload_handler inst io req_file d res =
     (case upload_try inst io req_file d of
        (Inr b, d') \<Rightarrow> \<lparr>sent = res_json b res, console_error = [], db_after = d'\<rparr>
      | (Inl err, d') \<Rightarrow>
          \<lparr>sent = res_json (ErrorResult ''Database not responding'' (message err))
                    (res_status 500 res),
           console_error = [(''Database error:'', err)],
           db_after = d'\<rparr>)"

subsection \<open>The application\<close>

text \<open>
  Middleware and routes in the order \<^verbatim>\<open>index.js\<close> registers them. On the upload route
  \<^verbatim>\<open>upload.single("image")\<close> runs before the handler, and the handler runs only if it
  accepts the body. A request that no route takes gets Express's own 404 page.
\<close>

definition serve :: "service \<Rightarrow> datastore_io \<Rightarrow> request \<Rightarrow> database \<Rightarrow> outcome" where
  "serve inst io req d =
     (let res = cors new_response
      in if req_method req = ''OPTIONS''
         then \<lparr>sent = res_sendStatus 200 res, console_error = [], db_after = d\<rparr>
         else if app_get ''/'' req
         then \<lparr>sent = end_response req (root_handler inst res), console_error = [], db_after = d\<rparr>
         else if app_get ''/health'' req
         then \<lparr>sent = end_response req (health_handler inst res), console_error = [], db_after = d\<rparr>
         else if app_get (api_route inst) req
         then \<lparr>sent = end_response req (api_info_handler inst res), console_error = [], db_after = d\<rparr>
         else if app_post (api_route inst) req
         then (case upload_single ''image'' req of
                 Inl err \<Rightarrow>
                   \<lparr>sent = default_error_handler err res, console_error = [], db_after = d\<rparr>
               | Inr req_file \<Rightarrow> upload_handler inst io req_file d res)
         else \<lparr>sent = end_response req (res\<lparr>status := 404, body := FinalHandlerPage\<rparr>),
               console_error = [], db_after = d\<rparr>)"

text \<open>
  Whether \<^verbatim>\<open>upload.single("image")\<close> accepts the body of a request, and \<^verbatim>\<open>req.file\<close> as it
  then leaves it.
\<close>

definition accepted :: "request \<Rightarrow> bool" where
  "accepted req = (case upload_single ''image'' req of Inl err \<Rightarrow> False | Inr f \<Rightarrow> True)"

definition file_of :: "request \<Rightarrow> multer_file option" where
  "file_of req = (case upload_single ''image'' req of Inl err \<Rightarrow> None | Inr f \<Rightarrow> f)"


section \<open>The second source file\<close>

text \<open>
  \<^verbatim>\<open>src/unnamed/part_000\<close> is a shorter copy of the same service: the same constants
  (\<^verbatim>\<open>BACKEND = "backend-a"\<close>, route \<^verbatim>\<open>/api/a\<close>), the same middleware, health check and
  upload handler, line for line, without the routes \<^verbatim>\<open>GET /\<close> and \<^verbatim>\<open>GET /api/a\<close>.
\<close>

definition serve_part_000 :: "service \<Rightarrow> datastore_io \<Rightarrow> request \<Rightarrow> database \<Rightarrow> outcome" where
  "serve_part_000 inst io req d =
     (let res = cors new_response
      in if req_method req = ''OPTIONS''
         then \<lparr>sent = res_sendStatus 200 res, console_error = [], db_after = d\<rparr>
         else if app_get ''/health'' req
         then \<lparr>sent = end_response req (health_handler inst res), console_error = [], db_after = d\<rparr>
         else if app_post (api_route inst) req
         then (case upload_single ''image'' req of
                 Inl err \<Rightarrow>
                   \<lparr>sent = default_error_handler err res, console_error = [], db_after = d\<rparr>
               | Inr req_file \<Rightarrow> upload_handler inst io req_file d res)
         else \<lparr>sent = end_response req (res\<lparr>status := 404, body := FinalHandlerPage\<rparr>),
               console_error = [], db_after = d\<rparr>)"

section \<open>The second instance\<close>

text \<open>Modelled from the spec: the source of the second instance, \<^verbatim>\<open>backend-b/index.js\<close>,
  is missing (both source files at hand carry the identity \<^verbatim>\<open>backend-a\<close>). The
  specification says that the two deployed instances, \<^verbatim>\<open>backend-a\<close> and \<^verbatim>\<open>backend-b\<close>,
  run the identical logic with a different identity constant and route prefix
  (\<^verbatim>\<open>/api/b\<close>), writing to the same shared table.\<close>

definition backend_b :: "string option \<Rightarrow> service" where
  "backend_b p = \<lparr>BACKEND = ''backend-b'', api_route = ''/api/b'', env_PORT = p\<rparr>"

text \<open>
  Renaming one instance into the other: the identity string, the route prefix in
  request paths and in the texts that quote it, and the \<^verbatim>\<open>backend_name\<close> column of the
  table and of the rows read back.
\<close>

definition rename_identity :: "string \<Rightarrow> string" where
  "rename_identity s =
     (if s = ''backend-a'' then ''backend-b'' else if s = ''backend-b'' then ''backend-a'' else s)"

definition rename_prefix :: "string \<Rightarrow> string" where
  "rename_prefix s =
     (if take 6 s = ''/api/a'' then ''/api/b'' @ drop 6 s
      else if take 6 s = ''/api/b'' then ''/api/a'' @ drop 6 s
      else s)"

definition rename_path :: "string \<Rightarrow> string" where
  "rename_path p =
     (if route_matches ''/api/a'' p then ''/api/b''
      else if route_matches ''/api/b'' p then ''/api/a''
      else p)"

definition rename_request :: "request \<Rightarrow> request" where
  "rename_request req = req\<lparr>req_path := rename_path (req_path req)\<rparr>"

definition rename_result_row :: "result_row \<Rightarrow> result_row" where
  "rename_result_row r = r\<lparr>backend_name := rename_identity (backend_name r)\<rparr>"

definition rename_row :: "row \<Rightarrow> row" where
  "rename_row r = r\<lparr>backend_name := rename_identity (backend_name r)\<rparr>"

definition rename_table :: "database \<Rightarrow> database" where
  "rename_table d = d\<lparr>requests := map rename_row (requests d)\<rparr>"

fun rename_body :: "body \<Rightarrow> body" where
  "rename_body (RootInfo b m h a) = RootInfo (rename_identity b) m h (rename_prefix a)"
| "rename_body (HealthInfo s b p) = HealthInfo s (rename_identity b) p"
| "rename_body (ApiInfo b m e) = ApiInfo (rename_identity b) m (rename_prefix e)"
| "rename_body (UploadResult b rows img) =
     UploadResult (rename_identity b) (map rename_result_row rows) img"
| "rename_body b = b"

definition rename_outcome :: "outcome \<Rightarrow> outcome" where
  "rename_outcome out =
     \<lparr>sent = (sent out)\<lparr>body := rename_body (body (sent out))\<rparr>,
      console_error = console_error out,
      db_after = rename_table (db_after out)\<rparr>"

section \<open>Sequences of requests\<close>

text \<open>
  Requests served one after the other against the shared table, each by one of the
  instances and with its own answers of the datastore.
\<close>

type_synonym step = "service \<times> datastore_io \<times> request"

fun run :: "step list \<Rightarrow> database \<Rightarrow> database" where
  "run [] d = d"
| "run ((inst, io, req) # rest) d = run rest (db_after (serve inst io req d))"

text \<open>A step that reaches the upload handler and finds the datastore answering both queries.\<close>

definition upload_succeeds :: "step \<Rightarrow> bool" where
  "upload_succeeds s =
     (case s of (inst, io, req) \<Rightarrow>
        app_post (api_route inst) req \<and> accepted req
        \<and> insert_error io = None \<and> select_error io = None)"

text \<open>The value of \<^verbatim>\<open>NOW()\<close> at a step.\<close>

definition clock_of :: "step \<Rightarrow> nat" where
  "clock_of s = (case s of (inst, io, req) \<Rightarrow> now io)"

section \<open>Derived notions and sample inputs\<close>

text \<open>The row that the insert of a request stores, and the table after it.\<close>

definition inserted_row :: "service \<Rightarrow> datastore_io \<Rightarrow> request \<Rightarrow> database \<Rightarrow> row" where
  "inserted_row inst io req d =
     \<lparr>id_col = requests_id_seq d + 1, backend_name = BACKEND inst, ts = now io,
      meta = JSON_stringify \<lparr>uploaded = truthy (image_of (file_of req))\<rparr>,
      image_col = image_of (file_of req)\<rparr>"

definition inserted :: "service \<Rightarrow> datastore_io \<Rightarrow> request \<Rightarrow> database \<Rightarrow> database" where
  "inserted inst io req d =
     \<lparr>requests = requests d @ [inserted_row inst io req d],
      requests_id_seq = requests_id_seq d + 1\<rparr>"

text \<open>\<^verbatim>\<open>typeof\<close> of a value of \<^verbatim>\<open>PORT\<close>.\<close>

fun typeof :: "js_value \<Rightarrow> string" where
  "typeof (JSNumber _) = ''number''"
| "typeof (JSString _) = ''string''"

text \<open>Sample tables, datastores and requests.\<close>

definition empty_table :: database where
  "empty_table = \<lparr>requests = [], requests_id_seq = 0\<rparr>"

definition one_row_table :: database where
  \<open>one_row_table =
     \<lparr>requests = [\<lparr>id_col = 1, backend_name = ''backend-b'', ts = 3,
                    meta = ''{"uploaded":false}'', image_col = None\<rparr>],
      requests_id_seq = 1\<rparr>\<close>

definition datastore_up :: "nat \<Rightarrow> datastore_io" where
  "datastore_up t = \<lparr>now = t, insert_error = None, select_error = None\<rparr>"

definition datastore_down :: "string \<Rightarrow> datastore_io" where
  "datastore_down msg = \<lparr>now = 0, insert_error = Some (Error msg), select_error = Some (Error msg)\<rparr>"

definition read_back_fails :: "nat \<Rightarrow> string \<Rightarrow> datastore_io" where
  "read_back_fails t msg = \<lparr>now = t, insert_error = None, select_error = Some (Error msg)\<rparr>"

definition post_to :: "string \<Rightarrow> multer_file option \<Rightarrow> request" where
  "post_to p f =
     \<lparr>req_method = ''POST'', req_path = p,
      req_body = Multipart (case f of None \<Rightarrow> [] | Some x \<Rightarrow> [File ''image'' x])\<rparr>"


definition get_from :: "string \<Rightarrow> request" where
  "get_from p = \<lparr>req_method = ''GET'', req_path = p, req_body = NotMultipart\<rparr>"


definition png :: "Buffer \<Rightarrow> multer_file" where
  "png b = \<lparr>originalname = ''pixel.png'', mimetype = ''image/png'', buffer = b\<rparr>"

definition ten_bytes :: Buffer where
  "ten_bytes = [0x89, 0x50, 0x4E, 0x47, 0x0D, 0x0A, 0x1A, 0x0A, 0x00, 0xFF]"

definition six_uploads :: "step list" where
  "six_uploads =
     [(backend_a None, datastore_up 1, post_to ''/api/a'' None),
      (backend_b None, datastore_up 2, post_to ''/api/b'' (Some (png [1]))),
      (backend_a None, datastore_up 3, post_to ''/api/a'' (Some (png [2, 3]))),
      (backend_b None, datastore_up 4, post_to ''/api/b'' None),
      (backend_b None, datastore_up 5, post_to ''/api/b'' (Some (png []))),
      (backend_a None, datastore_up 6, post_to ''/api/a'' None)]"

definition six_at_once :: "step list" where
  "six_at_once =
     [(backend_a None, datastore_up 5, post_to ''/api/a'' None),
      (backend_b None, datastore_up 5, post_to ''/api/b'' (Some (png [1]))),
      (backend_a None, datastore_up 5, post_to ''/api/a'' (Some (png [2, 3]))),
      (backend_b None, datastore_up 5, post_to ''/api/b'' None),
      (backend_b None, datastore_up 5, post_to ''/api/b'' (Some (png []))),
      (backend_a None, datastore_up 5, post_to ''/api/a'' None)]"

section \<open>Base64 decodes to the bytes encoded\<close>

lemma base64_alphabet_distinct: "distinct base64_alphabet"
  by (simp add: base64_alphabet_def)

lemma base64_alphabet_length: "length base64_alphabet = 64"
  by (simp add: base64_alphabet_def)

lemma and_3: "(a :: byte) AND 3 = take_bit 2 a"
  by (simp add: take_bit_eq_mask mask_eq_exp_minus_1)

lemma and_15: "(a :: byte) AND 15 = take_bit 4 a"
  by (simp add: take_bit_eq_mask mask_eq_exp_minus_1)

lemma and_63: "(a :: byte) AND 63 = take_bit 6 a"
  by (simp add: take_bit_eq_mask mask_eq_exp_minus_1)

lemma unat_and_63: "unat ((v :: byte) AND 63) < 64"
proof -
  have "unat (take_bit 6 v) = take_bit 6 (unat v)"
    by (simp add: unsigned_take_bit_eq)
  moreover have "take_bit 6 (unat v) < 2 ^ 6"
    by (rule take_bit_nat_less_exp)
  ultimately show ?thesis by (simp add: and_63)
qed

lemma base64_index_char: "base64_index (base64_char v) = Some (v AND 63)"
proof -
  let ?i = "unat (v AND 63)"
  have i: "?i < 64" by (rule unat_and_63)
  have "map_of (zip base64_alphabet (map of_nat [0..<64] :: byte list)) (base64_alphabet ! ?i)
        = Some ((map of_nat [0..<64] :: byte list) ! ?i)"
    by (rule map_of_zip_nth) (use i in \<open>simp_all add: base64_alphabet_distinct base64_alphabet_length del: upt_Suc\<close>)
  moreover have "(map of_nat [0..<64] :: byte list) ! ?i = of_nat ?i"
    using i by (simp del: upt_Suc)
  ultimately show ?thesis
    by (simp add: base64_index_def base64_char_def del: upt_Suc)
qed

lemma base64_char_not_pad: "base64_char v \<noteq> CHR ''=''"
proof -
  have "base64_char v \<in> set base64_alphabet"
    unfolding base64_char_def using unat_and_63 [of v]
    by (intro nth_mem) (simp add: base64_alphabet_length)
  moreover have "CHR ''='' \<notin> set base64_alphabet"
    by (simp add: base64_alphabet_def)
  ultimately show ?thesis by metis
qed

lemma byte_bit_high: "\<not> bit (b :: byte) (8 + n)"
  by (auto dest: bit_imp_le_length)

lemma shift_back_2: "\<not> n < 2 \<Longrightarrow> Suc (Suc (n - 2)) = n"
  by simp

lemma shift_back_4: "\<not> n < 4 \<Longrightarrow> 4 + (n - 4) = (n :: nat)"
  by simp

lemma shift_back_6: "\<not> n < 6 \<Longrightarrow> 6 + (n - 6) = (n :: nat)"
  by simp

lemmas join_simps = bit_simps byte_bit_high shift_back_2 shift_back_4 shift_back_6

lemma join1:
  "push_bit 2 (drop_bit 2 a AND 63) OR drop_bit 4 ((push_bit 4 (a AND 3) OR drop_bit 4 b) AND 63) = (a :: byte)"
  unfolding and_3 and_15 and_63
proof (rule bit_word_eqI)
  fix n
  assume n: "n < LENGTH(8)"
  then show "bit (push_bit 2 (take_bit 6 (drop_bit 2 a))
             OR drop_bit 4 (take_bit 6 (push_bit 4 (take_bit 2 a) OR drop_bit 4 b))) n = bit a n"
    by (cases "n < 2") (auto simp: join_simps)
qed

lemma join2:
  "push_bit 4 ((push_bit 4 (a AND 3) OR drop_bit 4 b) AND 63)
     OR drop_bit 2 ((push_bit 2 (b AND 15) OR drop_bit 6 c) AND 63) = (b :: byte)"
  unfolding and_3 and_15 and_63
proof (rule bit_word_eqI)
  fix n
  assume n: "n < LENGTH(8)"
  then show "bit (push_bit 4 (take_bit 6 (push_bit 4 (take_bit 2 a) OR drop_bit 4 b))
             OR drop_bit 2 (take_bit 6 (push_bit 2 (take_bit 4 b) OR drop_bit 6 c))) n = bit b n"
    by (cases "n < 4") (auto simp: join_simps)
qed

lemma join3:
  "push_bit 6 ((push_bit 2 (b AND 15) OR drop_bit 6 c) AND 63) OR ((c AND 63) AND 63) = (c :: byte)"
  unfolding and_3 and_15 and_63
proof (rule bit_word_eqI)
  fix n
  assume n: "n < LENGTH(8)"
  then show "bit (push_bit 6 (take_bit 6 (push_bit 2 (take_bit 4 b) OR drop_bit 6 c))
             OR take_bit 6 (take_bit 6 c)) n = bit c n"
    by (cases "n < 6") (auto simp: join_simps)
qed

lemma join1_pad:
  "push_bit 2 (drop_bit 2 a AND 63) OR drop_bit 4 (push_bit 4 (a AND 3) AND 63) = (a :: byte)"
  unfolding and_3 and_15 and_63
proof (rule bit_word_eqI)
  fix n
  assume n: "n < LENGTH(8)"
  then show "bit (push_bit 2 (take_bit 6 (drop_bit 2 a))
             OR drop_bit 4 (take_bit 6 (push_bit 4 (take_bit 2 a)))) n = bit a n"
    by (cases "n < 2") (auto simp: join_simps)
qed

lemma join2_pad:
  "push_bit 4 ((push_bit 4 (a AND 3) OR drop_bit 4 b) AND 63)
     OR drop_bit 2 (push_bit 2 (b AND 15) AND 63) = (b :: byte)"
  unfolding and_3 and_15 and_63
proof (rule bit_word_eqI)
  fix n
  assume n: "n < LENGTH(8)"
  then show "bit (push_bit 4 (take_bit 6 (push_bit 4 (take_bit 2 a) OR drop_bit 4 b))
             OR drop_bit 2 (take_bit 6 (push_bit 2 (take_bit 4 b)))) n = bit b n"
    by (cases "n < 4") (auto simp: join_simps)
qed

lemma decode_quad:
  "bytes_of_4 (drop_bit 2 a AND 63) ((push_bit 4 (a AND 3) OR drop_bit 4 b) AND 63)
     ((push_bit 2 (b AND 15) OR drop_bit 6 c) AND 63) ((c AND 63) AND 63) = [a, b, c]"
  unfolding bytes_of_4_def by (simp only: join1 join2 join3)

lemma decode_triple:
  "bytes_of_3 (drop_bit 2 a AND 63) ((push_bit 4 (a AND 3) OR drop_bit 4 b) AND 63)
     (push_bit 2 (b AND 15) AND 63) = [a, b]"
  unfolding bytes_of_3_def by (simp only: join1 join2_pad)

lemma decode_pair:
  "bytes_of_2 (drop_bit 2 a AND 63) (push_bit 4 (a AND 3) AND 63) = [a]"
  unfolding bytes_of_2_def by (simp only: join1_pad)

lemma base64_round_trip: "base64_decode (toString_base64 bs) = Some bs"
proof (induction bs rule: toString_base64.induct)
  case (1 a b c rest)
  define p where "p = base64_char (drop_bit 2 a)"
  define q where "q = base64_char (push_bit 4 (a AND 3) OR drop_bit 4 b)"
  define r where "r = base64_char (push_bit 2 (b AND 15) OR drop_bit 6 c)"
  define s where "s = base64_char (c AND 63)"
  have enc: "toString_base64 (a # b # c # rest) = p # q # r # s # toString_base64 rest"
    by (simp add: p_def q_def r_def s_def)
  have idx: "base64_index p = Some (drop_bit 2 a AND 63)"
    "base64_index q = Some ((push_bit 4 (a AND 3) OR drop_bit 4 b) AND 63)"
    "base64_index r = Some ((push_bit 2 (b AND 15) OR drop_bit 6 c) AND 63)"
    "base64_index s = Some ((c AND 63) AND 63)"
    unfolding p_def q_def r_def s_def by (rule base64_index_char)+
  have pad: "r \<noteq> CHR ''=''" "s \<noteq> CHR ''=''"
    unfolding r_def s_def by (rule base64_char_not_pad)+
  show ?case
  proof (cases "toString_base64 rest")
    case Nil
    have "rest = []"
      using Nil by (cases rest rule: toString_base64.cases) simp_all
    then show ?thesis
      unfolding enc Nil
      by (simp only: base64_decode.simps idx pad decode_quad prod.case option.case
          simp_thms if_False)
  next
    case (Cons x xs)
    have "base64_decode (p # q # r # s # x # xs) = Some ([a, b, c] @ rest)"
      by (simp only: base64_decode.simps idx decode_quad prod.case option.case
          1 [unfolded Cons])
    then show ?thesis unfolding enc Cons by simp
  qed
next
  case (2 a b)
  define p where "p = base64_char (drop_bit 2 a)"
  define q where "q = base64_char (push_bit 4 (a AND 3) OR drop_bit 4 b)"
  define r where "r = base64_char (push_bit 2 (b AND 15))"
  have enc: "toString_base64 [a, b] = [p, q, r, CHR ''='']"
    by (simp add: p_def q_def r_def)
  have idx: "base64_index p = Some (drop_bit 2 a AND 63)"
    "base64_index q = Some ((push_bit 4 (a AND 3) OR drop_bit 4 b) AND 63)"
    "base64_index r = Some (push_bit 2 (b AND 15) AND 63)"
    unfolding p_def q_def r_def by (rule base64_index_char)+
  have pad: "r \<noteq> CHR ''=''"
    unfolding r_def by (rule base64_char_not_pad)
  show ?case
    unfolding enc
    by (simp only: base64_decode.simps idx pad decode_triple prod.case option.case
        simp_thms if_False if_True)
next
  case (3 a)
  define p where "p = base64_char (drop_bit 2 a)"
  define q where "q = base64_char (push_bit 4 (a AND 3))"
  have enc: "toString_base64 [a] = [p, q, CHR ''='', CHR ''='']"
    by (simp add: p_def q_def)
  have idx: "base64_index p = Some (drop_bit 2 a AND 63)"
    "base64_index q = Some (push_bit 4 (a AND 3) AND 63)"
    unfolding p_def q_def by (rule base64_index_char)+
  show ?case
    unfolding enc
    by (simp only: base64_decode.simps idx decode_pair prod.case option.case
        simp_thms if_True)
next
  case 4
  show ?case by simp
qed

lemma ten_bytes_base64: "toString_base64 ten_bytes = ''iVBORw0KGgoA/w==''"
  by (simp add: ten_bytes_def base64_char_def base64_alphabet_def)

section \<open>Routing\<close>

lemma cors_new_response:
  "cors new_response =
     \<lparr>status = 200,
      headers = [(''Access-Control-Allow-Origin'', ''*''),
                 (''Access-Control-Allow-Methods'', ''GET, POST, OPTIONS''),
                 (''Access-Control-Allow-Headers'', ''Content-Type'')],
      body = NoBody\<rparr>"
  by (simp add: cors_def res_header_def new_response_def)

lemma lower_root: "map lower_char ''/'' = ''/''"
  by (simp add: lower_char_def)

lemma lower_health: "map lower_char ''/health'' = ''/health''"
  by (simp add: lower_char_def)

lemma lower_api_a: "map lower_char ''/api/a'' = ''/api/a''"
  by (simp add: lower_char_def)

lemma lower_api_b: "map lower_char ''/api/b'' = ''/api/b''"
  by (simp add: lower_char_def)

lemma route_health_not_root: "route_matches ''/health'' p \<Longrightarrow> \<not> route_matches ''/'' p"
  by (auto simp: route_matches_def lower_root lower_health Let_def)

lemma route_matches_self: "map lower_char r = r \<Longrightarrow> route_matches r r"
  by (simp add: route_matches_def)

lemma route_api_cases:
  "route_matches ''/api/a'' p \<longleftrightarrow> map lower_char p = ''/api/a'' \<or> map lower_char p = ''/api/a/''"
  "route_matches ''/api/b'' p \<longleftrightarrow> map lower_char p = ''/api/b'' \<or> map lower_char p = ''/api/b/''"
  "route_matches ''/health'' p \<longleftrightarrow> map lower_char p = ''/health'' \<or> map lower_char p = ''/health/''"
  "route_matches ''/'' p \<longleftrightarrow> map lower_char p = ''/''"
  by (simp_all add: route_matches_def lower_char_def Let_def)

lemma post_api_a: "app_post (api_route (backend_a p)) (post_to ''/api/a'' f)"
  by (simp add: app_post_def post_to_def backend_a_def route_matches_self [OF lower_api_a])

lemma post_api_b: "app_post (api_route (backend_b p)) (post_to ''/api/b'' f)"
  by (simp add: app_post_def post_to_def backend_b_def route_matches_self [OF lower_api_b])

lemma get_health: "req_method (get_from ''/health'') = ''GET''
    \<and> route_matches ''/health'' (req_path (get_from ''/health''))"
  by (simp add: get_from_def route_matches_self [OF lower_health])

lemma serve_options:
  "req_method req = ''OPTIONS'' \<Longrightarrow>
   serve inst io req d =
     \<lparr>sent = res_sendStatus 200 (cors new_response), console_error = [], db_after = d\<rparr>"
  by (simp add: serve_def)

lemma serve_get_health:
  assumes "req_method req = ''GET''" and "route_matches ''/health'' (req_path req)"
  shows "serve inst io req d =
     \<lparr>sent = health_handler inst (cors new_response), console_error = [], db_after = d\<rparr>"
  using assms route_health_not_root [OF assms(2)]
  by (simp add: serve_def app_get_def end_response_def)

text \<open>What \<^verbatim>\<open>upload.single("image")\<close> does with the sample requests.\<close>

lemma multer_post_to:
  "upload_single ''image'' (post_to p None) = Inr None"
  "upload_single ''image'' (post_to p (Some (png b))) = Inr (Some (png b))"
  by (simp_all add: upload_single_def post_to_def png_def)


lemma accepted_post_to:
  "accepted (post_to p None)"
  "accepted (post_to p (Some (png b)))"
  by (simp_all add: accepted_def multer_post_to)

lemma file_of_post_to:
  "file_of (post_to p None) = None"
  "file_of (post_to p (Some (png b))) = Some (png b)"
  by (simp_all add: file_of_def multer_post_to)

lemma multer_Inr: "upload_single ''image'' req = Inr f \<Longrightarrow> accepted req \<and> file_of req = f"
  by (simp add: accepted_def file_of_def)

lemma multer_Inl: "upload_single ''image'' req = Inl err \<Longrightarrow> \<not> accepted req"
  by (simp add: accepted_def)

lemma accepted_iff: "accepted req \<longleftrightarrow> upload_single ''image'' req = Inr (file_of req)"
  by (simp add: accepted_def file_of_def split: sum.splits)




lemma serve_post:
  "app_post (api_route inst) req \<Longrightarrow> accepted req \<Longrightarrow>
   serve inst io req d = upload_handler inst io (file_of req) d (cors new_response)"
  by (simp add: serve_def app_post_def app_get_def accepted_def file_of_def split: sum.splits)

lemma serve_refused:
  "app_post (api_route inst) req \<Longrightarrow> upload_single ''image'' req = Inl err \<Longrightarrow>
   serve inst io req d =
     \<lparr>sent = default_error_handler err (cors new_response), console_error = [], db_after = d\<rparr>"
  by (simp add: serve_def app_post_def app_get_def)

section \<open>The upload handler, case by case\<close>

lemma insert_is_inserted:
  "INSERT_INTO_requests (now io) (BACKEND inst)
     (JSON_stringify \<lparr>uploaded = truthy (image_of (file_of req))\<rparr>) (image_of (file_of req)) d
   = inserted inst io req d"
  by (simp add: INSERT_INTO_requests_def inserted_def inserted_row_def Let_def)

lemma requests_inserted:
  "requests (inserted inst io req d) = requests d @ [inserted_row inst io req d]"
  by (simp add: inserted_def)

lemma truthy_iff: "truthy v = (v \<noteq> None)"
  by (cases v) (simp_all add: truthy_def)

lemma meta_uploaded_stringify: "meta_uploaded (JSON_stringify \<lparr>uploaded = b\<rparr>) = Some b"
  by (simp add: meta_uploaded_def JSON_stringify_def)

lemma inserted_row_flag:
  "meta_uploaded (meta (inserted_row inst io req d)) = Some (image_col (inserted_row inst io req d) \<noteq> None)"
  by (simp add: inserted_row_def meta_uploaded_stringify truthy_iff)

lemma upload_handler_insert_error:
  assumes "insert_error io = Some err"
  shows "upload_handler inst io f d res =
     \<lparr>sent = res_json (ErrorResult ''Database not responding'' (message err)) (res_status 500 res),
      console_error = [(''Database error:'', err)],
      db_after = d\<rparr>"
  using assms by (simp add: upload_handler_def upload_try_def pool_query_insert_def Let_def)

lemma upload_handler_select_error:
  assumes "insert_error io = None" and "select_error io = Some err"
  shows "upload_handler inst io (file_of req) d res =
     \<lparr>sent = res_json (ErrorResult ''Database not responding'' (message err)) (res_status 500 res),
      console_error = [(''Database error:'', err)],
      db_after = inserted inst io req d\<rparr>"
  using assms
  by (simp add: upload_handler_def upload_try_def pool_query_insert_def pool_query_select_def
      Let_def insert_is_inserted)

lemma upload_handler_ok:
  assumes "insert_error io = None" and "select_error io = None"
  shows "upload_handler inst io (file_of req) d res =
     \<lparr>sent = res_json (UploadResult (BACKEND inst) (SELECT_recent (inserted inst io req d))
                (case image_of (file_of req) of None \<Rightarrow> None | Some b \<Rightarrow> Some (toString_base64 b))) res,
      console_error = [],
      db_after = inserted inst io req d\<rparr>"
  using assms
  by (simp add: upload_handler_def upload_try_def pool_query_insert_def pool_query_select_def
      Let_def insert_is_inserted)

lemma upload_handler_status:
  "status (sent (upload_handler inst io (file_of req) d (cors new_response))) =
     (if insert_error io = None \<and> select_error io = None then 200 else 500)"
proof (cases "insert_error io")
  case None
  then show ?thesis
    by (cases "select_error io")
       (simp_all add: upload_handler_ok upload_handler_select_error cors_new_response
          res_json_def res_status_def)
next
  case (Some err)
  then show ?thesis
    by (simp add: upload_handler_insert_error res_json_def res_status_def)
qed

lemma upload_handler_db:
  "db_after (upload_handler inst io (file_of req) d res) =
     (if insert_error io = None then inserted inst io req d else d)"
proof (cases "insert_error io")
  case None
  then show ?thesis
    by (cases "select_error io") (simp_all add: upload_handler_ok upload_handler_select_error)
next
  case (Some err)
  then show ?thesis by (simp add: upload_handler_insert_error)
qed

text \<open>Only the upload route touches the table, and only for a body that multer accepts.\<close>

lemma serve_db_unchanged:
  "\<not> app_post (api_route inst) req \<Longrightarrow> db_after (serve inst io req d) = d"
  by (simp add: serve_def Let_def)

lemma serve_db:
  "db_after (serve inst io req d) =
     (if app_post (api_route inst) req \<and> accepted req \<and> insert_error io = None
      then inserted inst io req d else d)"
proof (cases "app_post (api_route inst) req")
  case True
  show ?thesis
  proof (cases "upload_single ''image'' req")
    case (Inl err)
    with True show ?thesis by (simp add: serve_refused multer_Inl)
  next
    case (Inr f)
    from multer_Inr [OF Inr] have acc: "accepted req"
      by simp
    show ?thesis by (simp add: serve_post [OF True acc] upload_handler_db True acc)
  qed
next
  case False
  then show ?thesis by (simp add: serve_db_unchanged)
qed

text \<open>
  On the upload route a request is answered 200 exactly when multer accepts its body
  and both queries succeed.
\<close>

lemma serve_post_status:
  "app_post (api_route inst) req \<Longrightarrow>
   status (sent (serve inst io req d)) =
     (if accepted req \<and> insert_error io = None \<and> select_error io = None then 200 else 500)"
proof (cases "upload_single ''image'' req")
  case (Inl err)
  assume "app_post (api_route inst) req"
  with Inl show ?thesis
    by (simp add: serve_refused multer_Inl default_error_handler_def)
next
  case (Inr f)
  assume app: "app_post (api_route inst) req"
  from multer_Inr [OF Inr] have acc: "accepted req"
    by simp
  show ?thesis
    by (simp add: serve_post [OF app acc] upload_handler_status acc)
qed

lemma serve_status_not_post:
  assumes "req_method req = ''POST''" and "\<not> app_post (api_route inst) req"
  shows "status (sent (serve inst io req d)) = 404"
  using assms by (simp add: serve_def Let_def app_get_def end_response_def cors_new_response)

lemma serve_post_ok:
  assumes "app_post (api_route inst) req" and "accepted req"
    and "insert_error io = None" and "select_error io = None"
  shows "serve inst io req d =
     \<lparr>sent = \<lparr>status = 200,
              headers = [(''Access-Control-Allow-Origin'', ''*''),
                         (''Access-Control-Allow-Methods'', ''GET, POST, OPTIONS''),
                         (''Access-Control-Allow-Headers'', ''Content-Type'')],
              body = UploadResult (BACKEND inst) (SELECT_recent (inserted inst io req d))
                (case image_of (file_of req) of None \<Rightarrow> None | Some b \<Rightarrow> Some (toString_base64 b))\<rparr>,
      console_error = [],
      db_after = inserted inst io req d\<rparr>"
  using assms by (simp add: serve_post upload_handler_ok cors_new_response res_json_def)

lemma serve_post_failed:
  assumes "app_post (api_route inst) req" and "accepted req"
    and "insert_error io = Some err \<or> (insert_error io = None \<and> select_error io = Some err)"
  shows "sent (serve inst io req d) =
     \<lparr>status = 500,
      headers = [(''Access-Control-Allow-Origin'', ''*''),
                 (''Access-Control-Allow-Methods'', ''GET, POST, OPTIONS''),
                 (''Access-Control-Allow-Headers'', ''Content-Type'')],
      body = ErrorResult ''Database not responding'' (message err)\<rparr>"
    and "console_error (serve inst io req d) = [(''Database error:'', err)]"
  using assms
  by (auto simp: serve_post upload_handler_insert_error upload_handler_select_error
      cors_new_response res_json_def res_status_def)

lemma serve_post_rows:
  assumes "app_post (api_route inst) req" and "status (sent (serve inst io req d)) = 200"
  shows "body (sent (serve inst io req d))
           = UploadResult (BACKEND inst) (SELECT_recent (db_after (serve inst io req d)))
               (map_option toString_base64 (image_of (file_of req)))"
    and "db_after (serve inst io req d) = inserted inst io req d"
    and "accepted req"
proof -
  have up: "accepted req" "insert_error io = None" "select_error io = None"
    using assms(2) by (simp_all add: serve_post_status [OF assms(1)] split: if_splits)
  show "body (sent (serve inst io req d))
           = UploadResult (BACKEND inst) (SELECT_recent (db_after (serve inst io req d)))
               (map_option toString_base64 (image_of (file_of req)))"
    by (simp add: serve_post_ok [OF assms(1) up] map_option_case)
  show "db_after (serve inst io req d) = inserted inst io req d"
    by (simp add: serve_post_ok [OF assms(1) up])
  show "accepted req" by (rule up(1))
qed

section \<open>The read-back query\<close>

text \<open>
  The sort returns a permutation of the table in descending order of \<^verbatim>\<open>ts\<close>; on a table
  whose timestamps ascend strictly in insertion order it is the table reversed.
\<close>

lemma length_insert_by_ts_desc: "length (insert_by_ts_desc r xs) = Suc (length xs)"
  by (induction xs) simp_all

lemma length_ORDER_BY: "length (ORDER_BY_ts_DESC rs) = length rs"
  by (induction rs) (simp_all add: ORDER_BY_ts_DESC_def length_insert_by_ts_desc)

lemma mset_insert_by_ts_desc: "mset (insert_by_ts_desc r xs) = add_mset r (mset xs)"
  by (induction xs) simp_all

lemma mset_ORDER_BY: "mset (ORDER_BY_ts_DESC rs) = mset rs"
  by (induction rs) (simp_all add: ORDER_BY_ts_DESC_def mset_insert_by_ts_desc)

lemma set_insert_by_ts_desc: "set (insert_by_ts_desc r xs) = insert r (set xs)"
  by (induction xs) auto

lemma sorted_insert_by_ts_desc:
  "sorted_wrt (\<lambda>a b. ts b \<le> ts a) xs \<Longrightarrow> sorted_wrt (\<lambda>a b. ts b \<le> ts a) (insert_by_ts_desc r xs)"
  by (induction xs) (auto simp: set_insert_by_ts_desc)

lemma sorted_ORDER_BY: "sorted_wrt (\<lambda>a b. ts b \<le> ts a) (ORDER_BY_ts_DESC rs)"
  by (induction rs) (simp_all add: ORDER_BY_ts_DESC_def sorted_insert_by_ts_desc)

lemma ORDER_BY_Cons: "ORDER_BY_ts_DESC (x # xs) = insert_by_ts_desc x (ORDER_BY_ts_DESC xs)"
  by (simp add: ORDER_BY_ts_DESC_def)

lemma ORDER_BY_newest:
  "\<forall>x \<in> set xs. ts x < ts r \<Longrightarrow> ORDER_BY_ts_DESC (xs @ [r]) = r # ORDER_BY_ts_DESC xs"
proof (induction xs)
  case Nil
  show ?case by (simp add: ORDER_BY_ts_DESC_def)
next
  case (Cons x xs)
  then have "ORDER_BY_ts_DESC (xs @ [r]) = r # ORDER_BY_ts_DESC xs" and "ts x < ts r"
    by simp_all
  then show ?case
    by (simp add: ORDER_BY_Cons)
qed

lemma ORDER_BY_increasing:
  "sorted_wrt (<) (map ts rs) \<Longrightarrow> ORDER_BY_ts_DESC rs = rev rs"
proof (induction rs rule: rev_induct)
  case Nil
  show ?case by (simp add: ORDER_BY_ts_DESC_def)
next
  case (snoc r rs)
  from snoc.prems have inc: "sorted_wrt (<) (map ts rs)" and new: "\<forall>x \<in> set rs. ts x < ts r"
    by (auto simp: sorted_wrt_append)
  from ORDER_BY_newest [OF new] snoc.IH [OF inc] show ?case by simp
qed

lemma sorted_select_columns:
  "sorted_wrt (\<lambda>a b. ts b \<le> ts a) xs \<Longrightarrow> sorted_wrt (\<lambda>a b. ts b \<le> ts a) (map select_columns xs)"
  by (simp add: sorted_wrt_map select_columns_def)

lemma sorted_wrt_take: "sorted_wrt P xs \<Longrightarrow> sorted_wrt P (take n xs)"
  by (metis append_take_drop_id sorted_wrt_append)

lemma SELECT_recent_sorted: "sorted_wrt (\<lambda>a b. ts b \<le> ts a) (SELECT_recent d)"
  unfolding SELECT_recent_def
  by (intro sorted_select_columns sorted_wrt_take sorted_ORDER_BY)

lemma SELECT_recent_length: "length (SELECT_recent d) = min 5 (length (requests d))"
  by (simp add: SELECT_recent_def length_ORDER_BY)

lemma SELECT_recent_increasing:
  "sorted_wrt (<) (map ts (requests d)) \<Longrightarrow>
   SELECT_recent d = map select_columns (take 5 (rev (requests d)))"
  by (simp add: SELECT_recent_def ORDER_BY_increasing)

lemma SELECT_recent_first:
  assumes "sorted_wrt (<) (map ts (requests d))" and "requests d \<noteq> []"
  shows "id_col (hd (SELECT_recent d)) = id_col (last (requests d))"
proof -
  from assms(2) obtain r rs where "rev (requests d) = r # rs"
    by (cases "rev (requests d)") simp_all
  moreover from this have "last (requests d) = r"
    by (metis last_rev list.sel(1) rev_rev_ident)
  ultimately show ?thesis
    by (simp add: SELECT_recent_increasing [OF assms(1)] select_columns_def)
qed

lemma run_append: "run (xs @ ys) d = run ys (run xs d)"
  by (induction xs arbitrary: d) auto

lemma ts_run:
  "list_all upload_succeeds steps \<Longrightarrow>
   map ts (requests (run steps d)) = map ts (requests d) @ map clock_of steps"
proof (induction steps arbitrary: d)
  case Nil
  show ?case by simp
next
  case (Cons s steps)
  obtain inst io req where s: "s = (inst, io, req)" by (cases s)
  from Cons.prems have first: "upload_succeeds s" and rest: "list_all upload_succeeds steps"
    by simp_all
  from first s have ok: "app_post (api_route inst) req" "accepted req" "insert_error io = None"
    by (simp_all add: upload_succeeds_def)
  have "map ts (requests (db_after (serve inst io req d))) = map ts (requests d) @ [now io]"
    using ok by (simp add: serve_db requests_inserted inserted_row_def)
  with Cons.IH [OF rest, of "db_after (serve inst io req d)"] s show ?case
    by (simp add: clock_of_def)
qed

lemma length_run:
  "list_all upload_succeeds steps \<Longrightarrow>
   length (requests (run steps d)) = length (requests d) + length steps"
proof -
  assume "list_all upload_succeeds steps"
  then have "length (map ts (requests (run steps d)))
      = length (map ts (requests d) @ map clock_of steps)"
    by (simp only: ts_run)
  then show ?thesis by simp
qed

lemma image_of_post_to:
  "image_of (file_of (post_to p None)) = None"
  "image_of (file_of (post_to p (Some (png b)))) = Some b"
proof -
  show "image_of (file_of (post_to p None)) = None"
    by (simp add: file_of_post_to image_of_def)
  have "image_of (file_of (post_to p (Some (png b)))) = Some (buffer (png b))"
    by (simp add: file_of_post_to image_of_def)
  then show "image_of (file_of (post_to p (Some (png b)))) = Some b"
    by (simp add: png_def)
qed

lemma six_uploads_succeed: "list_all upload_succeeds six_uploads"
  by (simp add: six_uploads_def upload_succeeds_def post_api_a post_api_b accepted_post_to
      datastore_up_def)

lemma six_at_once_succeed: "list_all upload_succeeds six_at_once"
  by (simp add: six_at_once_def upload_succeeds_def post_api_a post_api_b accepted_post_to
      datastore_up_def)

lemma six_uploads_run:
  \<open>run six_uploads empty_table =
     \<lparr>requests =
        [\<lparr>id_col = 1, backend_name = ''backend-a'', ts = 1, meta = ''{"uploaded":false}'', image_col = None\<rparr>,
         \<lparr>id_col = 2, backend_name = ''backend-b'', ts = 2, meta = ''{"uploaded":true}'', image_col = Some [1]\<rparr>,
         \<lparr>id_col = 3, backend_name = ''backend-a'', ts = 3, meta = ''{"uploaded":true}'', image_col = Some [2, 3]\<rparr>,
         \<lparr>id_col = 4, backend_name = ''backend-b'', ts = 4, meta = ''{"uploaded":false}'', image_col = None\<rparr>,
         \<lparr>id_col = 5, backend_name = ''backend-b'', ts = 5, meta = ''{"uploaded":true}'', image_col = Some []\<rparr>,
         \<lparr>id_col = 6, backend_name = ''backend-a'', ts = 6, meta = ''{"uploaded":false}'', image_col = None\<rparr>],
      requests_id_seq = 6\<rparr>\<close>
  by (simp add: six_uploads_def serve_db post_api_a post_api_b accepted_post_to)
     (simp add: datastore_up_def inserted_def inserted_row_def empty_table_def backend_a_def
        backend_b_def image_of_post_to truthy_def JSON_stringify_def)

lemma six_at_once_run:
  \<open>run six_at_once empty_table =
     \<lparr>requests =
        [\<lparr>id_col = 1, backend_name = ''backend-a'', ts = 5, meta = ''{"uploaded":false}'', image_col = None\<rparr>,
         \<lparr>id_col = 2, backend_name = ''backend-b'', ts = 5, meta = ''{"uploaded":true}'', image_col = Some [1]\<rparr>,
         \<lparr>id_col = 3, backend_name = ''backend-a'', ts = 5, meta = ''{"uploaded":true}'', image_col = Some [2, 3]\<rparr>,
         \<lparr>id_col = 4, backend_name = ''backend-b'', ts = 5, meta = ''{"uploaded":false}'', image_col = None\<rparr>,
         \<lparr>id_col = 5, backend_name = ''backend-b'', ts = 5, meta = ''{"uploaded":true}'', image_col = Some []\<rparr>,
         \<lparr>id_col = 6, backend_name = ''backend-a'', ts = 5, meta = ''{"uploaded":false}'', image_col = None\<rparr>],
      requests_id_seq = 6\<rparr>\<close>
  by (simp add: six_at_once_def serve_db post_api_a post_api_b accepted_post_to)
     (simp add: datastore_up_def inserted_def inserted_row_def empty_table_def backend_a_def
        backend_b_def image_of_post_to truthy_def JSON_stringify_def)

section \<open>Renaming commutes with the program\<close>

lemma rename_path_routes:
  "route_matches ''/'' (rename_path p) = route_matches ''/'' p"
  "route_matches ''/health'' (rename_path p) = route_matches ''/health'' p"
  "route_matches ''/api/b'' (rename_path p) = route_matches ''/api/a'' p"
  by (auto simp: rename_path_def route_api_cases lower_char_def)

lemma rename_request_routes:
  "req_method (rename_request req) = req_method req"
  "req_body (rename_request req) = req_body req"
  "app_get ''/'' (rename_request req) = app_get ''/'' req"
  "app_get ''/health'' (rename_request req) = app_get ''/health'' req"
  "app_get ''/api/b'' (rename_request req) = app_get ''/api/a'' req"
  "app_post ''/api/b'' (rename_request req) = app_post ''/api/a'' req"
  by (simp_all add: rename_request_def app_get_def app_post_def rename_path_routes)

lemma end_response_rename:
  "end_response (rename_request req) res = end_response req res"
  by (simp add: end_response_def rename_request_routes)

lemma insert_by_ts_desc_rename:
  "insert_by_ts_desc (rename_row r) (map rename_row xs) = map rename_row (insert_by_ts_desc r xs)"
  by (induction xs) (simp_all add: rename_row_def)

lemma ORDER_BY_rename:
  "ORDER_BY_ts_DESC (map rename_row rs) = map rename_row (ORDER_BY_ts_DESC rs)"
  by (induction rs) (simp_all add: ORDER_BY_Cons insert_by_ts_desc_rename, simp add: ORDER_BY_ts_DESC_def)

lemma select_columns_rename:
  "select_columns (rename_row r) = rename_result_row (select_columns r)"
  by (simp add: select_columns_def rename_row_def rename_result_row_def)

lemma SELECT_recent_rename:
  "SELECT_recent (rename_table d) = map rename_result_row (SELECT_recent d)"
  by (simp add: SELECT_recent_def rename_table_def ORDER_BY_rename take_map select_columns_rename)

lemma multer_rename:
  "upload_single name (rename_request req) = upload_single name req"
  by (simp add: upload_single_def rename_request_routes)

lemma INSERT_rename:
  "INSERT_INTO_requests t ''backend-b'' m i (rename_table d)
     = rename_table (INSERT_INTO_requests t ''backend-a'' m i d)"
  by (simp add: INSERT_INTO_requests_def rename_table_def rename_row_def rename_identity_def Let_def)

lemma upload_handler_rename:
  "upload_handler (backend_b p) io f (rename_table d) res
     = rename_outcome (upload_handler (backend_a p) io f d res)"
proof -
  have a: "BACKEND (backend_a p) = ''backend-a''" and b: "BACKEND (backend_b p) = ''backend-b''"
    by (simp_all add: backend_a_def backend_b_def)
  show ?thesis
  proof (cases "insert_error io")
    case (Some err)
    then show ?thesis
      by (simp add: upload_handler_def upload_try_def pool_query_insert_def Let_def
          rename_outcome_def res_json_def res_status_def)
  next
    case None
    note ins = this
    show ?thesis
    proof (cases "select_error io")
      case (Some err)
      with ins show ?thesis
        by (simp add: upload_handler_def upload_try_def pool_query_insert_def
            pool_query_select_def Let_def a b INSERT_rename rename_outcome_def res_json_def
            res_status_def)
    next
      case None
      with ins show ?thesis
        by (simp add: upload_handler_def upload_try_def pool_query_insert_def
            pool_query_select_def Let_def a b INSERT_rename SELECT_recent_rename
            rename_outcome_def res_json_def rename_identity_def)
    qed
  qed
qed

section \<open>The two source files agree\<close>

text \<open>
  \<^verbatim>\<open>part_000\<close> answers every request as \<^verbatim>\<open>index.js\<close> does, the two routes it lacks
  apart: there it answers 404 where \<^verbatim>\<open>index.js\<close> answers 200. Whatever is proved below
  of the middleware, the health check and the upload route holds of both files.
\<close>

lemma part_000_agrees:
  assumes "\<not> app_get ''/'' req" and "\<not> app_get (api_route inst) req"
  shows "serve_part_000 inst io req d = serve inst io req d"
  using assms by (simp add: serve_part_000_def serve_def Let_def)

lemma part_000_missing_routes:
  assumes "req_method req = ''GET''"
    and "route_matches ''/'' (req_path req) \<or> route_matches ''/api/a'' (req_path req)"
  shows "status (sent (serve_part_000 (backend_a p) io req d)) = 404"
    and "status (sent (serve (backend_a p) io req d)) = 200"
proof -
  have nh: "\<not> route_matches ''/health'' (req_path req)"
    using assms(2) by (auto simp: route_api_cases)
  show "status (sent (serve_part_000 (backend_a p) io req d)) = 404"
    using assms(1) nh
    by (simp add: serve_part_000_def Let_def app_get_def app_post_def end_response_def
        cors_new_response)
  show "status (sent (serve (backend_a p) io req d)) = 200"
    using assms nh
    by (auto simp: serve_def Let_def app_get_def end_response_def cors_new_response
        root_handler_def api_info_handler_def res_json_def backend_a_def)
qed

section \<open>Upload round trip\<close>

text \<open>
  C1. A POST on the upload route that carries a file with bytes \<open>B\<close> under field
  \<^verbatim>\<open>image\<close> and is answered 200 has, in its response, \<^verbatim>\<open>uploadedImage\<close> equal to the
  base64 text of \<open>B\<close>, a text that decodes to exactly the bytes \<open>B\<close>. The row that the
  request has inserted is the last of the table; its \<^verbatim>\<open>meta\<close> is \<^verbatim>\<open>{"uploaded":true}\<close> and
  its \<^verbatim>\<open>image\<close> is \<open>B\<close>.
\<close>

theorem upload_round_trip:
  assumes "app_post (api_route inst) req" and "upload_single ''image'' req = Inr (Some f)"
    and "status (sent (serve inst io req d)) = 200"
  shows \<open>body (sent (serve inst io req d))
           = UploadResult (BACKEND inst) (SELECT_recent (db_after (serve inst io req d)))
               (Some (toString_base64 (buffer f)))
       \<and> base64_decode (toString_base64 (buffer f)) = Some (buffer f)
       \<and> requests (db_after (serve inst io req d))
           = requests d @ [\<lparr>id_col = requests_id_seq d + 1, backend_name = BACKEND inst,
                             ts = now io, meta = ''{"uploaded":true}'',
                             image_col = Some (buffer f)\<rparr>]
       \<and> meta_uploaded ''{"uploaded":true}'' = Some True\<close>
proof -
  from multer_Inr [OF assms(2)] have acc: "accepted req" and fo: "file_of req = Some f"
    by simp_all
  have img: "image_of (file_of req) = Some (buffer f)"
    by (simp add: fo image_of_def)
  have up: "insert_error io = None" "select_error io = None"
    using assms(3) by (simp_all add: serve_post_status [OF assms(1)] split: if_splits)
  have bd: "body (sent (serve inst io req d))
           = UploadResult (BACKEND inst) (SELECT_recent (db_after (serve inst io req d)))
               (Some (toString_base64 (buffer f)))"
    by (simp add: serve_post_ok [OF assms(1) acc up] img)
  have rw: \<open>requests (db_after (serve inst io req d))
           = requests d @ [\<lparr>id_col = requests_id_seq d + 1, backend_name = BACKEND inst,
                             ts = now io, meta = ''{"uploaded":true}'',
                             image_col = Some (buffer f)\<rparr>]\<close>
    by (simp add: serve_post_ok [OF assms(1) acc up] requests_inserted inserted_row_def img
        truthy_def JSON_stringify_def)
  have fl: \<open>meta_uploaded ''{"uploaded":true}'' = Some True\<close>
    by (simp add: meta_uploaded_def)
  from bd rw fl base64_round_trip [of "buffer f"] show ?thesis by blast
qed

text \<open>
  The ten bytes \<^verbatim>\<open>89 50 4E 47 0D 0A 1A 0A 00 FF\<close> posted to \<^verbatim>\<open>backend-a\<close> on an empty
  table: answered 200 with \<^verbatim>\<open>iVBORw0KGgoA/w==\<close>, and stored as they are.
\<close>

theorem upload_round_trip_witness:
  \<open>status (sent (serve (backend_a None) (datastore_up 7)
       (post_to ''/api/a'' (Some (png ten_bytes))) empty_table)) = 200
   \<and> body (sent (serve (backend_a None) (datastore_up 7)
       (post_to ''/api/a'' (Some (png ten_bytes))) empty_table))
       = UploadResult ''backend-a''
           [\<lparr>id_col = 1, backend_name = ''backend-a'', ts = 7, meta = ''{"uploaded":true}''\<rparr>]
           (Some ''iVBORw0KGgoA/w=='')
   \<and> requests (db_after (serve (backend_a None) (datastore_up 7)
       (post_to ''/api/a'' (Some (png ten_bytes))) empty_table))
       = [\<lparr>id_col = 1, backend_name = ''backend-a'', ts = 7,
            meta = ''{"uploaded":true}'', image_col = Some ten_bytes\<rparr>]\<close>
proof -
  have f: "upload_single ''image'' (post_to ''/api/a'' (Some (png ten_bytes)))
      = Inr (Some (png ten_bytes))"
    by (rule multer_post_to(2))
  have ok: "status (sent (serve (backend_a None) (datastore_up 7)
       (post_to ''/api/a'' (Some (png ten_bytes))) empty_table)) = 200"
    by (simp add: serve_post_status [OF post_api_a] accepted_post_to datastore_up_def)
  note fact = upload_round_trip [OF post_api_a f ok]
  from fact have rw: \<open>requests (db_after (serve (backend_a None) (datastore_up 7)
       (post_to ''/api/a'' (Some (png ten_bytes))) empty_table))
       = [\<lparr>id_col = 1, backend_name = ''backend-a'', ts = 7,
            meta = ''{"uploaded":true}'', image_col = Some ten_bytes\<rparr>]\<close>
    by (simp add: empty_table_def backend_a_def datastore_up_def png_def)
  have sel: \<open>SELECT_recent (db_after (serve (backend_a None) (datastore_up 7)
       (post_to ''/api/a'' (Some (png ten_bytes))) empty_table))
       = [\<lparr>id_col = 1, backend_name = ''backend-a'', ts = 7, meta = ''{"uploaded":true}''\<rparr>]\<close>
    by (simp add: SELECT_recent_def rw ORDER_BY_ts_DESC_def select_columns_def)
  from fact ok rw sel show ?thesis
    by (simp add: backend_a_def png_def ten_bytes_base64)
qed

section \<open>The five most recent rows\<close>

text \<open>
  C2 (as amended). A POST on the upload route that is answered 200 returns as
  \<^verbatim>\<open>rows\<close> the result of the read-back on the table that now holds its own row: the
  first five rows of the whole table in descending order of \<^verbatim>\<open>ts\<close> (the sorted list is
  a permutation of all rows, whatever their \<^verbatim>\<open>backend_name\<close>), each cut down to the
  columns \<^verbatim>\<open>id, backend_name, ts, meta\<close> (a row read back has no \<^verbatim>\<open>image\<close>); so five rows
  or, on a table shorter than that, all of them, and exactly five after seven uploads
  in sequence. They are rows of greatest \<^verbatim>\<open>ts\<close>: no row left out has a later \<^verbatim>\<open>ts\<close> than a
  row returned. Where
  the timestamps of the table ascend strictly in insertion order and the datastore's
  clock is later than all of them at the insert, they are the five most recently
  inserted rows, newest first, and the \<^verbatim>\<open>id\<close> of the first entry is the \<^verbatim>\<open>id\<close> of the row
  this request inserted, the most recent one; so it is after uploads served one after
  the other, by any mix of instances, on a clock that advances strictly.
\<close>

theorem recent_five:
  assumes "app_post (api_route inst) req" and "status (sent (serve inst io req d)) = 200"
  shows "body (sent (serve inst io req d))
           = UploadResult (BACKEND inst) (SELECT_recent (db_after (serve inst io req d)))
               (map_option toString_base64 (image_of (file_of req)))
       \<and> SELECT_recent (db_after (serve inst io req d))
           = map select_columns (take 5 (ORDER_BY_ts_DESC (requests (db_after (serve inst io req d)))))
       \<and> mset (ORDER_BY_ts_DESC (requests (db_after (serve inst io req d))))
           = mset (requests (db_after (serve inst io req d)))
       \<and> sorted_wrt (\<lambda>a b. ts b \<le> ts a)
           (ORDER_BY_ts_DESC (requests (db_after (serve inst io req d))))
       \<and> sorted_wrt (\<lambda>a b. ts b \<le> ts a) (SELECT_recent (db_after (serve inst io req d)))
       \<and> (\<forall>a \<in> set (take 5 (ORDER_BY_ts_DESC (requests (db_after (serve inst io req d))))).
           \<forall>b \<in> set (drop 5 (ORDER_BY_ts_DESC (requests (db_after (serve inst io req d))))).
             ts b \<le> ts a)
       \<and> length (SELECT_recent (db_after (serve inst io req d)))
           = min 5 (length (requests d) + 1)
       \<and> (list_all upload_succeeds before \<and> length before = 6 \<and> d = run before d0 \<longrightarrow>
            length (SELECT_recent (db_after (serve inst io req d))) = 5)
       \<and> (sorted_wrt (<) (map ts (requests d) @ [now io]) \<longrightarrow>
            SELECT_recent (db_after (serve inst io req d))
              = map select_columns (take 5 (rev (requests d @ [inserted_row inst io req d])))
          \<and> id_col (hd (SELECT_recent (db_after (serve inst io req d))))
              = id_col (inserted_row inst io req d))
       \<and> (list_all upload_succeeds before \<and> d = run before d0
            \<and> sorted_wrt (<) (map ts (requests d0) @ map clock_of before @ [now io]) \<longrightarrow>
            id_col (hd (SELECT_recent (db_after (serve inst io req d))))
              = id_col (last (requests (db_after (serve inst io req d)))))"
proof -
  let ?d' = "db_after (serve inst io req d)"
  note out = serve_post_rows [OF assms]
  have rq: "requests ?d' = requests d @ [inserted_row inst io req d]"
    by (simp add: out(2) requests_inserted)
  have tsq: "map ts (requests ?d') = map ts (requests d) @ [now io]"
    by (simp add: rq inserted_row_def)
  have len: "length (SELECT_recent ?d') = min 5 (length (requests d) + 1)"
    by (simp add: SELECT_recent_length rq)
  have five: "length (SELECT_recent ?d') = 5"
    if h: "list_all upload_succeeds before \<and> length before = 6 \<and> d = run before d0"
  proof -
    from h have "length (requests d) = length (requests d0) + 6"
      by (simp add: length_run)
    with len show ?thesis by simp
  qed
  have clock: "SELECT_recent ?d' = map select_columns (take 5 (rev (requests d @ [inserted_row inst io req d])))
          \<and> id_col (hd (SELECT_recent ?d')) = id_col (inserted_row inst io req d)"
    if inc: "sorted_wrt (<) (map ts (requests d) @ [now io])"
  proof -
    from inc have s: "sorted_wrt (<) (map ts (requests ?d'))"
      by (simp only: tsq)
    from SELECT_recent_increasing [OF s] SELECT_recent_first [OF s] show ?thesis
      by (simp add: rq)
  qed
  have seq: "id_col (hd (SELECT_recent ?d')) = id_col (last (requests ?d'))"
    if h: "list_all upload_succeeds before \<and> d = run before d0
            \<and> sorted_wrt (<) (map ts (requests d0) @ map clock_of before @ [now io])"
  proof -
    from h have t: "map ts (requests d) = map ts (requests d0) @ map clock_of before"
      by (simp add: ts_run)
    from h t have inc: "sorted_wrt (<) (map ts (requests d) @ [now io])"
      by simp
    from clock [OF inc] have "id_col (hd (SELECT_recent ?d')) = id_col (inserted_row inst io req d)"
      by (rule conjunct2)
    moreover have "last (requests ?d') = inserted_row inst io req d"
      by (simp add: rq)
    ultimately show ?thesis
      by simp
  qed
  have sel: "SELECT_recent ?d' = map select_columns (take 5 (ORDER_BY_ts_DESC (requests ?d')))"
    by (simp add: SELECT_recent_def)
  have "sorted_wrt (\<lambda>a b. ts b \<le> ts a)
      (take 5 (ORDER_BY_ts_DESC (requests ?d')) @ drop 5 (ORDER_BY_ts_DESC (requests ?d')))"
    by (simp add: sorted_ORDER_BY)
  then have top: "\<forall>a \<in> set (take 5 (ORDER_BY_ts_DESC (requests ?d'))).
           \<forall>b \<in> set (drop 5 (ORDER_BY_ts_DESC (requests ?d'))). ts b \<le> ts a"
    by (simp only: sorted_wrt_append) blast
  from out(1) sel mset_ORDER_BY [of "requests ?d'"] sorted_ORDER_BY [of "requests ?d'"]
    SELECT_recent_sorted [of ?d'] top len five clock seq
  show ?thesis
    by blast
qed

text \<open>
  Seven uploads in sequence on an empty table, three by \<^verbatim>\<open>backend-a\<close> and four by
  \<^verbatim>\<open>backend-b\<close>, at clock values 1 to 7: the seventh response lists the rows with ids
  7, 6, 5, 4, 3, of both instances.
\<close>

theorem recent_five_witness:
  "list_all upload_succeeds six_uploads \<and> length six_uploads = 6
   \<and> status (sent (serve (backend_b None) (datastore_up 7) (post_to ''/api/b'' (Some (png ten_bytes)))
        (run six_uploads empty_table))) = 200
   \<and> length (SELECT_recent (db_after (serve (backend_b None) (datastore_up 7)
        (post_to ''/api/b'' (Some (png ten_bytes))) (run six_uploads empty_table)))) = 5
   \<and> map id_col (SELECT_recent (db_after (serve (backend_b None) (datastore_up 7)
        (post_to ''/api/b'' (Some (png ten_bytes))) (run six_uploads empty_table))))
       = [7, 6, 5, 4, 3]
   \<and> map backend_name (SELECT_recent (db_after (serve (backend_b None) (datastore_up 7)
        (post_to ''/api/b'' (Some (png ten_bytes))) (run six_uploads empty_table))))
       = [''backend-b'', ''backend-a'', ''backend-b'', ''backend-b'', ''backend-a'']
   \<and> id_col (last (requests (db_after (serve (backend_b None) (datastore_up 7)
        (post_to ''/api/b'' (Some (png ten_bytes))) (run six_uploads empty_table))))) = 7"
proof -
  let ?out = "serve (backend_b None) (datastore_up 7) (post_to ''/api/b'' (Some (png ten_bytes)))
        (run six_uploads empty_table)"
  have ok: "status (sent ?out) = 200"
    by (simp add: serve_post_status [OF post_api_b] accepted_post_to datastore_up_def)
  have six: "length six_uploads = 6"
    by (simp add: six_uploads_def)
  have clk: "sorted_wrt (<) (map ts (requests empty_table) @ map clock_of six_uploads
      @ [now (datastore_up 7)])"
    by (simp add: six_uploads_def clock_of_def datastore_up_def empty_table_def)
  have inc: "sorted_wrt (<) (map ts (requests (run six_uploads empty_table)) @ [now (datastore_up 7)])"
    by (simp add: six_uploads_run datastore_up_def)
  note fact = recent_five [OF post_api_b ok, of six_uploads empty_table]
  from fact inc have sel: "SELECT_recent (db_after ?out)
      = map select_columns (take 5 (rev (requests (run six_uploads empty_table)
          @ [inserted_row (backend_b None) (datastore_up 7)
               (post_to ''/api/b'' (Some (png ten_bytes))) (run six_uploads empty_table)])))"
    by blast
  have ids: "map id_col (SELECT_recent (db_after ?out)) = [7, 6, 5, 4, 3]"
    unfolding sel by (simp add: six_uploads_run inserted_row_def select_columns_def)
  have names: "map backend_name (SELECT_recent (db_after ?out))
      = [''backend-b'', ''backend-a'', ''backend-b'', ''backend-b'', ''backend-a'']"
    unfolding sel by (simp add: six_uploads_run inserted_row_def select_columns_def backend_b_def)
  from fact six_uploads_succeed six
  have five: "length (SELECT_recent (db_after ?out)) = 5"
    by blast
  from fact six_uploads_succeed clk
  have first: "id_col (hd (SELECT_recent (db_after ?out))) = id_col (last (requests (db_after ?out)))"
    by blast
  have "SELECT_recent (db_after ?out) \<noteq> []"
    using five by auto
  then have "hd (map id_col (SELECT_recent (db_after ?out))) = id_col (hd (SELECT_recent (db_after ?out)))"
    by (simp add: hd_map)
  with ids first have "id_col (last (requests (db_after ?out))) = 7"
    by simp
  with six_uploads_succeed six ok five ids names show ?thesis
    by simp
qed

text \<open>
  C2 as stated has the most recently inserted rows returned, the newest first. Seven
  uploads in sequence on an empty table, all at the same value 5 of \<^verbatim>\<open>NOW()\<close>, each
  answered 200: the seventh response lists the rows with ids 1, 2, 3, 4, 5, the oldest
  five, while the row inserted last has id 7.
\<close>

theorem recent_five_counterexample:
  "list_all upload_succeeds six_at_once
   \<and> status (sent (serve (backend_b None) (datastore_up 5) (post_to ''/api/b'' (Some (png ten_bytes)))
        (run six_at_once empty_table))) = 200
   \<and> map id_col (SELECT_recent (db_after (serve (backend_b None) (datastore_up 5)
        (post_to ''/api/b'' (Some (png ten_bytes))) (run six_at_once empty_table))))
       = [1, 2, 3, 4, 5]
   \<and> id_col (last (requests (db_after (serve (backend_b None) (datastore_up 5)
        (post_to ''/api/b'' (Some (png ten_bytes))) (run six_at_once empty_table))))) = 7"
proof -
  let ?out = "serve (backend_b None) (datastore_up 5) (post_to ''/api/b'' (Some (png ten_bytes)))
        (run six_at_once empty_table)"
  have ok: "status (sent ?out) = 200"
    by (simp add: serve_post_status [OF post_api_b] accepted_post_to datastore_up_def)
  have "db_after ?out = inserted (backend_b None) (datastore_up 5)
      (post_to ''/api/b'' (Some (png ten_bytes))) (run six_at_once empty_table)"
    by (simp add: serve_db post_api_b accepted_post_to datastore_up_def)
  then have rq: "map (\<lambda>r. (id_col r, ts r)) (requests (db_after ?out))
      = [(1, 5), (2, 5), (3, 5), (4, 5), (5, 5), (6, 5), (7, 5)]"
    by (simp add: inserted_def inserted_row_def six_at_once_run datastore_up_def)
  have ids: "map id_col (SELECT_recent (db_after ?out)) = [1, 2, 3, 4, 5]"
  proof -
    obtain r1 r2 r3 r4 r5 r6 r7 where rs: "requests (db_after ?out) = [r1, r2, r3, r4, r5, r6, r7]"
      using rq by (auto simp: map_eq_Cons_conv)
    with rq show ?thesis
      by (simp add: SELECT_recent_def ORDER_BY_ts_DESC_def select_columns_def)
  qed
  have "map id_col (requests (db_after ?out)) = [1, 2, 3, 4, 5, 6, 7]"
    using rq by (auto simp: map_eq_Cons_conv)
  then have lst: "id_col (last (requests (db_after ?out))) = 7"
    by (auto simp: map_eq_Cons_conv)
  from six_at_once_succeed ok ids lst show ?thesis
    by simp
qed

section \<open>A POST without a file\<close>




section \<open>A failing datastore\<close>

text \<open>
  C4. On the upload route, the queries are issued for a request that
  \<^verbatim>\<open>upload.single("image")\<close> lets through to the handler. When then the insert is
  rejected with an error, or the insert succeeds and the read-back is rejected with an
  error, the response is 500 with body
  \<^verbatim>\<open>{error: "Database not responding", details: <the message of that error>}\<close> and the
  error is written to the error console. Nothing is rolled back: after a failed
  insert the table is as before, and after a failed read-back it holds the row just
  inserted. The instance keeps serving: a \<^verbatim>\<open>GET /health\<close> that follows any POST on the
  upload route is answered 200, whatever the datastore does then.
\<close>

theorem datastore_failure:
  assumes "app_post (api_route inst) req"
  shows "(upload_single ''image'' req = Inr f \<and> insert_error io = Some err \<longrightarrow>
            status (sent (serve inst io req d)) = 500
          \<and> body (sent (serve inst io req d)) = ErrorResult ''Database not responding'' (message err)
          \<and> console_error (serve inst io req d) = [(''Database error:'', err)]
          \<and> db_after (serve inst io req d) = d)
       \<and> (upload_single ''image'' req = Inr f \<and> insert_error io = None
            \<and> select_error io = Some err \<longrightarrow>
            status (sent (serve inst io req d)) = 500
          \<and> body (sent (serve inst io req d)) = ErrorResult ''Database not responding'' (message err)
          \<and> console_error (serve inst io req d) = [(''Database error:'', err)]
          \<and> requests (db_after (serve inst io req d))
              = requests d @ [inserted_row inst io req d])
       \<and> (req_method h = ''GET'' \<and> route_matches ''/health'' (req_path h) \<longrightarrow>
            status (sent (serve inst io' h (db_after (serve inst io req d)))) = 200
          \<and> body (sent (serve inst io' h (db_after (serve inst io req d))))
              = HealthInfo ''ok'' (BACKEND inst) (PORT inst))"
proof -
  have ins: "status (sent (serve inst io req d)) = 500
          \<and> body (sent (serve inst io req d)) = ErrorResult ''Database not responding'' (message err)
          \<and> console_error (serve inst io req d) = [(''Database error:'', err)]
          \<and> db_after (serve inst io req d) = d"
    if h: "upload_single ''image'' req = Inr f \<and> insert_error io = Some err"
  proof -
    from h multer_Inr [of req f] have acc: "accepted req"
      by simp
    from h serve_post_failed [OF assms acc, of io err d] show ?thesis
      by (simp add: serve_db)
  qed
  have sel: "status (sent (serve inst io req d)) = 500
          \<and> body (sent (serve inst io req d)) = ErrorResult ''Database not responding'' (message err)
          \<and> console_error (serve inst io req d) = [(''Database error:'', err)]
          \<and> requests (db_after (serve inst io req d))
              = requests d @ [inserted_row inst io req d]"
    if h: "upload_single ''image'' req = Inr f \<and> insert_error io = None
            \<and> select_error io = Some err"
  proof -
    from h multer_Inr [of req f] have acc: "accepted req"
      by simp
    from h assms acc serve_post_failed [OF assms acc, of io err d] show ?thesis
      by (simp add: serve_db requests_inserted)
  qed
  have alive: "status (sent (serve inst io' h (db_after (serve inst io req d)))) = 200
          \<and> body (sent (serve inst io' h (db_after (serve inst io req d))))
              = HealthInfo ''ok'' (BACKEND inst) (PORT inst)"
    if "req_method h = ''GET'' \<and> route_matches ''/health'' (req_path h)"
    using that
    by (simp add: serve_get_health cors_new_response health_handler_def res_json_def)
  from ins sel alive show ?thesis by blast
qed

text \<open>
  A refused connection at the insert, and a connection lost at the read-back, both
  followed by a health check.
\<close>

theorem datastore_failure_witness:
  "insert_error (datastore_down ''connect ECONNREFUSED'') = Some (Error ''connect ECONNREFUSED'')
   \<and> sent (serve (backend_a None) (datastore_down ''connect ECONNREFUSED'')
        (post_to ''/api/a'' (Some (png [1, 2, 3]))) empty_table)
       = \<lparr>status = 500,
          headers = [(''Access-Control-Allow-Origin'', ''*''),
                     (''Access-Control-Allow-Methods'', ''GET, POST, OPTIONS''),
                     (''Access-Control-Allow-Headers'', ''Content-Type'')],
          body = ErrorResult ''Database not responding'' ''connect ECONNREFUSED''\<rparr>
   \<and> requests (db_after (serve (backend_a None) (datastore_down ''connect ECONNREFUSED'')
        (post_to ''/api/a'' (Some (png [1, 2, 3]))) empty_table)) = []
   \<and> select_error (read_back_fails 7 ''Connection terminated'') = Some (Error ''Connection terminated'')
   \<and> status (sent (serve (backend_a None) (read_back_fails 7 ''Connection terminated'')
        (post_to ''/api/a'' None) empty_table)) = 500
   \<and> body (sent (serve (backend_a None) (read_back_fails 7 ''Connection terminated'')
        (post_to ''/api/a'' None) empty_table))
       = ErrorResult ''Database not responding'' ''Connection terminated''
   \<and> length (requests (db_after (serve (backend_a None) (read_back_fails 7 ''Connection terminated'')
        (post_to ''/api/a'' None) empty_table))) = 1
   \<and> body (sent (serve (backend_a None) (datastore_down ''connect ECONNREFUSED'') (get_from ''/health'')
        (db_after (serve (backend_a None) (read_back_fails 7 ''Connection terminated'')
          (post_to ''/api/a'' None) empty_table))))
       = HealthInfo ''ok'' ''backend-a'' (JSNumber 8080)"
proof -
  have down: "insert_error (datastore_down ''connect ECONNREFUSED'') = Some (Error ''connect ECONNREFUSED'')"
    by (simp add: datastore_down_def)
  have rb: "insert_error (read_back_fails 7 ''Connection terminated'') = None
      \<and> select_error (read_back_fails 7 ''Connection terminated'') = Some (Error ''Connection terminated'')"
    by (simp add: read_back_fails_def)
  note first = datastore_failure [OF post_api_a,
      where f = "Some (png [1, 2, 3])" and io = "datastore_down ''connect ECONNREFUSED''"
      and err = "Error ''connect ECONNREFUSED''" and d = empty_table
      and h = "get_from ''/health''" and io' = "datastore_down ''connect ECONNREFUSED''"]
  note second = datastore_failure [OF post_api_a,
      where f = None and io = "read_back_fails 7 ''Connection terminated''"
      and err = "Error ''Connection terminated''" and d = empty_table
      and h = "get_from ''/health''" and io' = "datastore_down ''connect ECONNREFUSED''"]
  have hd: "headers (sent (serve (backend_a None) (datastore_down ''connect ECONNREFUSED'')
        (post_to ''/api/a'' (Some (png [1, 2, 3]))) empty_table))
      = [(''Access-Control-Allow-Origin'', ''*''),
                     (''Access-Control-Allow-Methods'', ''GET, POST, OPTIONS''),
                     (''Access-Control-Allow-Headers'', ''Content-Type'')]"
    using serve_post_failed(1) [OF post_api_a accepted_post_to(2),
      of "datastore_down ''connect ECONNREFUSED''"
      "Error ''connect ECONNREFUSED''" None "[1, 2, 3]" empty_table] down
    by simp
  from first second down rb get_health hd multer_post_to show ?thesis
    by (simp add: empty_table_def backend_a_def PORT_def)
qed

section \<open>The uploaded flag\<close>

text \<open>
  C5. Every row that serving a request adds to the table has \<^verbatim>\<open>meta.uploaded\<close> true if
  and only if its \<^verbatim>\<open>image\<close> is not NULL; so a table of which this holds keeps it.
\<close>

theorem uploaded_flag_iff_image:
  "(\<forall>r \<in> set (drop (length (requests d)) (requests (db_after (serve inst io req d)))).
      meta_uploaded (meta r) = Some (image_col r \<noteq> None))
   \<and> ((\<forall>r \<in> set (requests d). meta_uploaded (meta r) = Some (image_col r \<noteq> None)) \<longrightarrow>
      (\<forall>r \<in> set (requests (db_after (serve inst io req d))).
         meta_uploaded (meta r) = Some (image_col r \<noteq> None)))"
  by (simp add: serve_db requests_inserted inserted_row_flag)

text \<open>An upload by \<^verbatim>\<open>backend-a\<close> on a table that holds one row of \<^verbatim>\<open>backend-b\<close>.\<close>

theorem uploaded_flag_iff_image_witness:
  \<open>requests (db_after (serve (backend_a None) (datastore_up 7)
       (post_to ''/api/a'' (Some (png [1, 2, 3]))) one_row_table))
     = [\<lparr>id_col = 1, backend_name = ''backend-b'', ts = 3,
          meta = ''{"uploaded":false}'', image_col = None\<rparr>,
        \<lparr>id_col = 2, backend_name = ''backend-a'', ts = 7,
          meta = ''{"uploaded":true}'', image_col = Some [1, 2, 3]\<rparr>]
   \<and> meta_uploaded ''{"uploaded":false}'' = Some False
   \<and> meta_uploaded ''{"uploaded":true}'' = Some True\<close>
proof -
  have rows: \<open>requests (db_after (serve (backend_a None) (datastore_up 7)
       (post_to ''/api/a'' (Some (png [1, 2, 3]))) one_row_table))
     = [\<lparr>id_col = 1, backend_name = ''backend-b'', ts = 3,
          meta = ''{"uploaded":false}'', image_col = None\<rparr>,
        \<lparr>id_col = 2, backend_name = ''backend-a'', ts = 7,
          meta = ''{"uploaded":true}'', image_col = Some [1, 2, 3]\<rparr>]\<close>
  proof -
    have "db_after (serve (backend_a None) (datastore_up 7)
       (post_to ''/api/a'' (Some (png [1, 2, 3]))) one_row_table)
      = inserted (backend_a None) (datastore_up 7)
          (post_to ''/api/a'' (Some (png [1, 2, 3]))) one_row_table"
      by (simp add: serve_db post_api_a accepted_post_to datastore_up_def)
    then show ?thesis
      by (simp add: datastore_up_def inserted_def inserted_row_def
        one_row_table_def backend_a_def image_of_post_to truthy_def
        JSON_stringify_def)
  qed
  have old: "\<forall>r \<in> set (requests one_row_table). meta_uploaded (meta r) = Some (image_col r \<noteq> None)"
    by (simp add: one_row_table_def meta_uploaded_def)
  from uploaded_flag_iff_image [of one_row_table "backend_a None" "datastore_up 7"
      "post_to ''/api/a'' (Some (png [1, 2, 3]))"] old
  have "\<forall>r \<in> set (requests (db_after (serve (backend_a None) (datastore_up 7)
       (post_to ''/api/a'' (Some (png [1, 2, 3]))) one_row_table))).
         meta_uploaded (meta r) = Some (image_col r \<noteq> None)"
    by blast
  with rows show ?thesis by simp
qed

section \<open>The two instances\<close>

text \<open>
  C6. The two instances run the same logic up to the identity string and the route
  prefix: \<^verbatim>\<open>backend-b\<close> answers the renamed request on the renamed table with the renaming
  of what \<^verbatim>\<open>backend-a\<close> answers, route for route, in status, headers, body, console
  output and table.
\<close>

theorem instances_equal_up_to_renaming:
  "serve (backend_b p) io (rename_request req) (rename_table d)
     = rename_outcome (serve (backend_a p) io req d)"
proof -
  have a: "api_route (backend_a p) = ''/api/a''" and b: "api_route (backend_b p) = ''/api/b''"
    by (simp_all add: backend_a_def backend_b_def)
  consider (options) "req_method req = ''OPTIONS''"
    | (root) "req_method req \<noteq> ''OPTIONS''" "app_get ''/'' req"
    | (health) "req_method req \<noteq> ''OPTIONS''" "\<not> app_get ''/'' req" "app_get ''/health'' req"
    | (info) "req_method req \<noteq> ''OPTIONS''" "\<not> app_get ''/'' req" "\<not> app_get ''/health'' req"
        "app_get ''/api/a'' req"
    | (upload) "req_method req \<noteq> ''OPTIONS''" "\<not> app_get ''/'' req" "\<not> app_get ''/health'' req"
        "\<not> app_get ''/api/a'' req" "app_post ''/api/a'' req"
    | (other) "req_method req \<noteq> ''OPTIONS''" "\<not> app_get ''/'' req" "\<not> app_get ''/health'' req"
        "\<not> app_get ''/api/a'' req" "\<not> app_post ''/api/a'' req"
    by blast
  then show ?thesis
  proof cases
    case options
    then show ?thesis
      by (simp add: serve_def Let_def cors_new_response rename_request_routes rename_outcome_def res_sendStatus_def)
  next
    case root
    then show ?thesis
      by (simp add: serve_def Let_def cors_new_response rename_request_routes end_response_rename rename_outcome_def
          root_handler_def res_json_def end_response_def a b)
         (simp add: backend_a_def backend_b_def rename_identity_def rename_prefix_def)
  next
    case health
    then show ?thesis
      by (simp add: serve_def Let_def cors_new_response rename_request_routes end_response_rename rename_outcome_def
          health_handler_def res_json_def end_response_def a b PORT_def)
         (simp add: backend_a_def backend_b_def rename_identity_def)
  next
    case info
    then show ?thesis
      by (simp add: serve_def Let_def cors_new_response rename_request_routes end_response_rename rename_outcome_def
          api_info_handler_def res_json_def end_response_def a b)
         (simp add: backend_a_def backend_b_def rename_identity_def rename_prefix_def)
  next
    case upload
    then show ?thesis
      by (simp add: serve_def Let_def cors_new_response rename_request_routes a b multer_rename
          upload_handler_rename rename_outcome_def default_error_handler_def
          split: sum.splits)
  next
    case other
    then show ?thesis
      by (simp add: serve_def Let_def cors_new_response rename_request_routes end_response_rename rename_outcome_def
          end_response_def a b)
  qed
qed

text \<open>
  An upload to \<^verbatim>\<open>/API/A/\<close> of \<^verbatim>\<open>backend-a\<close> against the same upload to \<^verbatim>\<open>/api/b\<close> of
  \<^verbatim>\<open>backend-b\<close>.
\<close>

theorem instances_equal_up_to_renaming_witness:
  \<open>serve (backend_b None) (datastore_up 7) (post_to ''/api/b'' (Some (png [1, 2, 3])))
      \<lparr>requests = [\<lparr>id_col = 1, backend_name = ''backend-a'', ts = 3,
                      meta = ''{"uploaded":false}'', image_col = None\<rparr>],
       requests_id_seq = 1\<rparr>
    = rename_outcome (serve (backend_a None) (datastore_up 7)
        (post_to ''/API/A/'' (Some (png [1, 2, 3]))) one_row_table)\<close>
proof -
  have r: "rename_request (post_to ''/API/A/'' (Some (png [1, 2, 3])))
      = post_to ''/api/b'' (Some (png [1, 2, 3]))"
    by (simp add: rename_request_def post_to_def rename_path_def route_matches_def lower_char_def)
  have t: \<open>rename_table one_row_table
      = \<lparr>requests = [\<lparr>id_col = 1, backend_name = ''backend-a'', ts = 3,
                      meta = ''{"uploaded":false}'', image_col = None\<rparr>],
       requests_id_seq = 1\<rparr>\<close>
    by (simp add: rename_table_def one_row_table_def rename_row_def rename_identity_def)
  from instances_equal_up_to_renaming [of None "datastore_up 7"
      "post_to ''/API/A/'' (Some (png [1, 2, 3]))" one_row_table]
  show ?thesis
    by (simp only: r t)
qed

section \<open>Health check\<close>

text \<open>
  C7 (as amended). Every \<^verbatim>\<open>GET /health\<close>, whatever the table holds and whatever the
  datastore would answer, gets status 200 and the body
  \<^verbatim>\<open>{status: "ok", backend: BACKEND, port: PORT}\<close>, and changes nothing. The value of
  \<^verbatim>\<open>port\<close> is the number 8080 when the environment variable \<^verbatim>\<open>PORT\<close> is unset or
  empty, and otherwise the text of that variable, a string.
\<close>

theorem health_check:
  assumes "req_method req = ''GET''" and "route_matches ''/health'' (req_path req)"
  shows "status (sent (serve inst io req d)) = 200
       \<and> body (sent (serve inst io req d)) = HealthInfo ''ok'' (BACKEND inst) (PORT inst)
       \<and> PORT inst = (case env_PORT inst of
                        None \<Rightarrow> JSNumber 8080
                      | Some s \<Rightarrow> if s = [] then JSNumber 8080 else JSString s)
       \<and> console_error (serve inst io req d) = []
       \<and> db_after (serve inst io req d) = d"
  by (simp add: serve_get_health [OF assms] cors_new_response health_handler_def res_json_def
      PORT_def)

text \<open>A health check while the datastore refuses connections.\<close>

theorem health_check_witness:
  "body (sent (serve (backend_a None)
      \<lparr>now = 0, insert_error = Some (Error ''connect ECONNREFUSED''), select_error = None\<rparr>
      \<lparr>req_method = ''GET'', req_path = ''/health'', req_body = NotMultipart\<rparr>
      \<lparr>requests = [], requests_id_seq = 0\<rparr>)) = HealthInfo ''ok'' ''backend-a'' (JSNumber 8080)"
proof -
  have m: "route_matches ''/health''
      (req_path \<lparr>req_method = ''GET'', req_path = ''/health'', req_body = NotMultipart\<rparr>)"
    by (simp add: route_matches_self [OF lower_health])
  show ?thesis
    using health_check [of "\<lparr>req_method = ''GET'', req_path = ''/health'', req_body = NotMultipart\<rparr>",
        OF _ m, of "backend_a None"
        "\<lparr>now = 0, insert_error = Some (Error ''connect ECONNREFUSED''), select_error = None\<rparr>"
        "\<lparr>requests = [], requests_id_seq = 0\<rparr>"]
    by (simp add: backend_a_def)
qed

text \<open>
  C7 as stated says that \<^verbatim>\<open>port\<close> is a number. With \<^verbatim>\<open>PORT=3000\<close> in the environment,
  as the deployment sets it, \<^verbatim>\<open>GET /health\<close> reports the string \<^verbatim>\<open>"3000"\<close>.
\<close>

theorem health_port_counterexample:
  "body (sent (serve (backend_a (Some ''3000''))
      \<lparr>now = 0, insert_error = None, select_error = None\<rparr>
      \<lparr>req_method = ''GET'', req_path = ''/health'', req_body = NotMultipart\<rparr>
      \<lparr>requests = [], requests_id_seq = 0\<rparr>)) = HealthInfo ''ok'' ''backend-a'' (JSString ''3000'')
   \<and> typeof (JSString ''3000'') \<noteq> ''number''"
proof -
  have m: "route_matches ''/health''
      (req_path \<lparr>req_method = ''GET'', req_path = ''/health'', req_body = NotMultipart\<rparr>)"
    by (simp add: route_matches_self [OF lower_health])
  have "serve (backend_a (Some ''3000''))
      \<lparr>now = 0, insert_error = None, select_error = None\<rparr>
      \<lparr>req_method = ''GET'', req_path = ''/health'', req_body = NotMultipart\<rparr>
      \<lparr>requests = [], requests_id_seq = 0\<rparr>
    = \<lparr>sent = health_handler (backend_a (Some ''3000'')) (cors new_response),
       console_error = [], db_after = \<lparr>requests = [], requests_id_seq = 0\<rparr>\<rparr>"
    by (rule serve_get_health [OF _ m]) simp
  then show ?thesis
    by (simp add: health_handler_def res_json_def PORT_def backend_a_def)
qed

section \<open>CORS preflight\<close>

text \<open>
  C8 (as amended). Every OPTIONS request, on any path, is answered by the CORS
  middleware with status 200, the three permissive headers
  (\<^verbatim>\<open>Access-Control-Allow-Origin: *\<close>, \<^verbatim>\<open>Access-Control-Allow-Methods: GET, POST, OPTIONS\<close>,
  \<^verbatim>\<open>Access-Control-Allow-Headers: Content-Type\<close>) and the text body \<^verbatim>\<open>OK\<close>, which is what
  \<^verbatim>\<open>res.sendStatus(200)\<close> sends; no route handler runs and the table is untouched.
\<close>

theorem options_preflight:
  assumes "req_method req = ''OPTIONS''"
  shows "status (sent (serve inst io req d)) = 200
       \<and> body (sent (serve inst io req d)) = Text ''OK''
       \<and> map_of (headers (sent (serve inst io req d))) ''Access-Control-Allow-Origin'' = Some ''*''
       \<and> map_of (headers (sent (serve inst io req d))) ''Access-Control-Allow-Methods''
           = Some ''GET, POST, OPTIONS''
       \<and> map_of (headers (sent (serve inst io req d))) ''Access-Control-Allow-Headers''
           = Some ''Content-Type''
       \<and> console_error (serve inst io req d) = []
       \<and> db_after (serve inst io req d) = d"
  by (simp add: serve_options [OF assms] cors_new_response res_sendStatus_def status_message_def)

text \<open>\<^verbatim>\<open>OPTIONS /api/a\<close> on \<^verbatim>\<open>backend-a\<close>.\<close>

theorem options_preflight_witness:
  "status (sent (serve (backend_a None)
      \<lparr>now = 0, insert_error = None, select_error = None\<rparr>
      \<lparr>req_method = ''OPTIONS'', req_path = ''/api/a'', req_body = NotMultipart\<rparr>
      \<lparr>requests = [], requests_id_seq = 0\<rparr>)) = 200
   \<and> body (sent (serve (backend_a None)
      \<lparr>now = 0, insert_error = None, select_error = None\<rparr>
      \<lparr>req_method = ''OPTIONS'', req_path = ''/api/a'', req_body = NotMultipart\<rparr>
      \<lparr>requests = [], requests_id_seq = 0\<rparr>)) = Text ''OK''"
  using options_preflight [of "\<lparr>req_method = ''OPTIONS'', req_path = ''/api/a'', req_body = NotMultipart\<rparr>"
      "backend_a None" "\<lparr>now = 0, insert_error = None, select_error = None\<rparr>"
      "\<lparr>requests = [], requests_id_seq = 0\<rparr>"]
  by simp

text \<open>
  C8 as stated asks for an empty body. \<^verbatim>\<open>OPTIONS /api/a\<close> is answered with the two
  characters \<^verbatim>\<open>OK\<close>.
\<close>

theorem options_body_counterexample:
  "body (sent (serve (backend_a None)
      \<lparr>now = 0, insert_error = None, select_error = None\<rparr>
      \<lparr>req_method = ''OPTIONS'', req_path = ''/api/a'', req_body = NotMultipart\<rparr>
      \<lparr>requests = [], requests_id_seq = 0\<rparr>)) = Text ''OK''
   \<and> Text ''OK'' \<noteq> NoBody \<and> Text ''OK'' \<noteq> Text []"
  by (simp add: serve_def cors_new_response res_sendStatus_def status_message_def)

section \<open>An append-only table\<close>

text \<open>
  C9. Serving a request leaves every row of the table as it is and where it is, and
  adds at most one row at the end; a POST that is answered 200 adds exactly one, the
  row of that request.
\<close>

theorem append_only:
  "take (length (requests d)) (requests (db_after (serve inst io req d))) = requests d
   \<and> length (requests (db_after (serve inst io req d))) \<le> length (requests d) + 1
   \<and> (req_method req = ''POST'' \<and> status (sent (serve inst io req d)) = 200 \<longrightarrow>
        requests (db_after (serve inst io req d)) = requests d @ [inserted_row inst io req d])"
proof -
  have pre: "take (length (requests d)) (requests (db_after (serve inst io req d))) = requests d"
    by (simp add: serve_db requests_inserted)
  have len: "length (requests (db_after (serve inst io req d))) \<le> length (requests d) + 1"
    by (simp add: serve_db requests_inserted)
  have one: "requests (db_after (serve inst io req d)) = requests d @ [inserted_row inst io req d]"
    if m: "req_method req = ''POST''" and ok: "status (sent (serve inst io req d)) = 200"
  proof (cases "app_post (api_route inst) req")
    case True
    with ok have "accepted req \<and> insert_error io = None"
      by (simp add: serve_post_status split: if_splits)
    with True show ?thesis by (simp add: serve_db requests_inserted)
  next
    case False
    from serve_status_not_post [OF m False] ok show ?thesis by simp
  qed
  from pre len one show ?thesis by blast
qed

text \<open>A POST without a file on an empty table leaves a table of one row.\<close>

theorem append_only_witness:
  "req_method (post_to ''/api/a'' None) = ''POST''
   \<and> status (sent (serve (backend_a None) (datastore_up 7) (post_to ''/api/a'' None) empty_table)) = 200
   \<and> requests (db_after (serve (backend_a None) (datastore_up 7) (post_to ''/api/a'' None) empty_table))
       = [inserted_row (backend_a None) (datastore_up 7) (post_to ''/api/a'' None) empty_table]"
proof -
  have m: "req_method (post_to ''/api/a'' None) = ''POST''"
    by (simp add: post_to_def)
  have ok: "status (sent (serve (backend_a None) (datastore_up 7) (post_to ''/api/a'' None) empty_table)) = 200"
    by (simp add: serve_post_status [OF post_api_a] accepted_post_to datastore_up_def)
  show ?thesis
    using append_only [of empty_table "backend_a None" "datastore_up 7" "post_to ''/api/a'' None"] m ok
    by (simp add: empty_table_def)
qed

section \<open>A file of no bytes\<close>

text \<open>
  C10. A POST on the upload route with a file of zero bytes under field \<^verbatim>\<open>image\<close>, with
  the datastore answering, counts as an upload: the response is 200 with
  \<^verbatim>\<open>uploadedImage\<close> the empty string, not null, and the inserted row has \<^verbatim>\<open>meta\<close> equal to
  \<^verbatim>\<open>{"uploaded":true}\<close> and as \<^verbatim>\<open>image\<close> the empty byte string, not NULL.
\<close>

theorem zero_byte_upload:
  assumes "app_post (api_route inst) req" and "upload_single ''image'' req = Inr (Some f)"
    and "buffer f = []"
    and "insert_error io = None" and "select_error io = None"
  shows \<open>status (sent (serve inst io req d)) = 200
       \<and> body (sent (serve inst io req d))
           = UploadResult (BACKEND inst) (SELECT_recent (db_after (serve inst io req d))) (Some [])
       \<and> requests (db_after (serve inst io req d))
           = requests d @ [\<lparr>id_col = requests_id_seq d + 1, backend_name = BACKEND inst,
                             ts = now io, meta = ''{"uploaded":true}'', image_col = Some []\<rparr>]
       \<and> meta_uploaded ''{"uploaded":true}'' = Some True\<close>
proof -
  from multer_Inr [OF assms(2)] have acc: "accepted req" and fo: "file_of req = Some f"
    by simp_all
  have img: "image_of (file_of req) = Some []"
    using assms(3) by (simp add: fo image_of_def)
  have st: "status (sent (serve inst io req d)) = 200"
    using assms(4,5) acc by (simp add: serve_post_status [OF assms(1)])
  have bd: "body (sent (serve inst io req d))
           = UploadResult (BACKEND inst) (SELECT_recent (db_after (serve inst io req d))) (Some [])"
    by (simp add: serve_post_ok [OF assms(1) acc assms(4,5)] img)
  have rw: \<open>requests (db_after (serve inst io req d))
           = requests d @ [\<lparr>id_col = requests_id_seq d + 1, backend_name = BACKEND inst,
                             ts = now io, meta = ''{"uploaded":true}'', image_col = Some []\<rparr>]\<close>
    by (simp add: serve_post_ok [OF assms(1) acc assms(4,5)] requests_inserted inserted_row_def img
        truthy_def JSON_stringify_def)
  have fl: \<open>meta_uploaded ''{"uploaded":true}'' = Some True\<close>
    by (simp add: meta_uploaded_def)
  from st bd rw fl show ?thesis by blast
qed

text \<open>An empty file posted to \<^verbatim>\<open>backend-a\<close> on an empty table.\<close>

theorem zero_byte_upload_witness:
  \<open>body (sent (serve (backend_a None) (datastore_up 7)
       (post_to ''/api/a'' (Some (png []))) empty_table))
       = UploadResult ''backend-a''
           [\<lparr>id_col = 1, backend_name = ''backend-a'', ts = 7, meta = ''{"uploaded":true}''\<rparr>]
           (Some [])
   \<and> requests (db_after (serve (backend_a None) (datastore_up 7)
       (post_to ''/api/a'' (Some (png []))) empty_table))
       = [\<lparr>id_col = 1, backend_name = ''backend-a'', ts = 7,
            meta = ''{"uploaded":true}'', image_col = Some []\<rparr>]\<close>
proof -
  have f: "upload_single ''image'' (post_to ''/api/a'' (Some (png []))) = Inr (Some (png []))"
    by (rule multer_post_to(2))
  have e: "buffer (png []) = []"
    by (simp add: png_def)
  have up: "insert_error (datastore_up 7) = None" "select_error (datastore_up 7) = None"
    by (simp_all add: datastore_up_def)
  note fact = zero_byte_upload [OF post_api_a f e up]
  from fact have rw: \<open>requests (db_after (serve (backend_a None) (datastore_up 7)
       (post_to ''/api/a'' (Some (png []))) empty_table))
       = [\<lparr>id_col = 1, backend_name = ''backend-a'', ts = 7,
            meta = ''{"uploaded":true}'', image_col = Some []\<rparr>]\<close>
    by (simp add: empty_table_def backend_a_def datastore_up_def)
  have sel: \<open>SELECT_recent (db_after (serve (backend_a None) (datastore_up 7)
       (post_to ''/api/a'' (Some (png []))) empty_table))
       = [\<lparr>id_col = 1, backend_name = ''backend-a'', ts = 7, meta = ''{"uploaded":true}''\<rparr>]\<close>
    by (simp add: SELECT_recent_def rw ORDER_BY_ts_DESC_def select_columns_def)
  from fact rw sel show ?thesis
    by (simp add: backend_a_def)
qed

end
